theory Spec2Isabelle
  imports Complex_Main "HOL-Library.Word" "HOL-Library.Signed_Division"
begin

unbundle bit_operations_syntax

section \<open>The memory image and C arithmetic\<close>

text \<open>
  Both drivers work on one global buffer, \<^verbatim>\<open>unsigned char radio_mem[]\<close>, addressed by
  fixed offsets. It is modelled as a store from byte addresses to bytes; a pointer into the
  buffer is the address it points to. C's \<^verbatim>\<open>int\<close> is modelled by \<open>int\<close>: the values the
  drivers compute stay far below \<open>2^31\<close>. C division and remainder truncate towards zero
  (\<open>sdiv\<close>, \<open>smod\<close>), and a store into a \<^verbatim>\<open>uint8_t\<close> keeps the value modulo 256
  (\<open>word_of_int\<close>).
\<close>

type_synonym byte = "8 word"
type_synonym mem = "nat \<Rightarrow> byte"

text \<open>\<^verbatim>\<open>memset(&radio_mem[a], v, n)\<close>.\<close>

definition memset :: "mem \<Rightarrow> nat \<Rightarrow> byte \<Rightarrow> nat \<Rightarrow> mem" where
  "memset m a v n = (\<lambda>x. if a \<le> x \<and> x < a + n then v else m x)"

text \<open>Copying a received buffer into the image at address \<open>a\<close>.\<close>

definition store_bytes :: "mem \<Rightarrow> nat \<Rightarrow> byte list \<Rightarrow> mem" where
  "store_bytes m a bs = (\<lambda>x. if a \<le> x \<and> x < a + length bs then bs ! (x - a) else m x)"

section \<open>FT-60R: frequency codec\<close>

definition ft60_MEMSZ :: nat where "ft60_MEMSZ = 0x6fc8"
definition ft60_NCHAN :: nat where "ft60_NCHAN = 1000"
definition ft60_NBANKS :: nat where "ft60_NBANKS = 10"
definition ft60_NPMS :: nat where "ft60_NPMS = 50"
definition ft60_OFFSET_VFO :: nat where "ft60_OFFSET_VFO = 0x0048"
definition ft60_OFFSET_HOME :: nat where "ft60_OFFSET_HOME = 0x01c8"
definition ft60_OFFSET_CHANNELS :: nat where "ft60_OFFSET_CHANNELS = 0x0248"
definition ft60_OFFSET_PMS :: nat where "ft60_OFFSET_PMS = 0x40c8"
definition ft60_OFFSET_NAMES :: nat where "ft60_OFFSET_NAMES = 0x4708"
definition ft60_OFFSET_BANKS :: nat where "ft60_OFFSET_BANKS = 0x69c8"
definition ft60_OFFSET_SCAN :: nat where "ft60_OFFSET_SCAN = 0x6ec8"

text \<open>
  \<^verbatim>\<open>freq_to_hz(uint8_t *bcd)\<close> of ft-60.c: five decimal digits in nibbles (units of
  10 kHz), and the two top bits of \<^verbatim>\<open>bcd[0]\<close> counting steps of 2500 Hz.
\<close>

definition ft60_freq_to_hz :: "mem \<Rightarrow> nat \<Rightarrow> int" where
  "ft60_freq_to_hz m bcd =
     uint (m bcd AND 15) * 100000000 +
     uint (drop_bit 4 (m (bcd + 1)) AND 15) * 10000000 +
     uint (m (bcd + 1) AND 15) * 1000000 +
     uint (drop_bit 4 (m (bcd + 2)) AND 15) * 100000 +
     uint (m (bcd + 2) AND 15) * 10000 +
     uint (drop_bit 6 (m bcd)) * 2500"

text \<open>\<^verbatim>\<open>hz_to_freq(int hz, uint8_t *bcd)\<close> of ft-60.c.\<close>

definition ft60_hz_to_freq :: "int \<Rightarrow> nat \<Rightarrow> mem \<Rightarrow> mem" where
  "ft60_hz_to_freq hz bcd m = m
     (bcd     := word_of_int (push_bit 6 ((hz sdiv 2500) smod 4) OR ((hz sdiv 100000000) smod 10)),
      bcd + 1 := word_of_int (push_bit 4 ((hz sdiv 10000000) smod 10) OR ((hz sdiv 1000000) smod 10)),
      bcd + 2 := word_of_int (push_bit 4 ((hz sdiv 100000) smod 10) OR ((hz sdiv 10000) smod 10)))"

section \<open>VX-2: frequency codec\<close>

definition vx2_MEMSZ :: nat where "vx2_MEMSZ = 32594"
definition vx2_NCHAN :: nat where "vx2_NCHAN = 1000"
definition vx2_NBANKS :: nat where "vx2_NBANKS = 20"
definition vx2_NPMS :: nat where "vx2_NPMS = 50"
definition vx2_OFFSET_BUSE1 :: nat where "vx2_OFFSET_BUSE1 = 0x005a"
definition vx2_OFFSET_BUSE2 :: nat where "vx2_OFFSET_BUSE2 = 0x00da"
definition vx2_OFFSET_BNCHAN :: nat where "vx2_OFFSET_BNCHAN = 0x016a"
definition vx2_OFFSET_HOME :: nat where "vx2_OFFSET_HOME = 0x03d2"
definition vx2_OFFSET_VFO :: nat where "vx2_OFFSET_VFO = 0x04e2"
definition vx2_OFFSET_BANKS :: nat where "vx2_OFFSET_BANKS = 0x05c2"
definition vx2_OFFSET_FLAGS :: nat where "vx2_OFFSET_FLAGS = 0x1562"
definition vx2_OFFSET_CHANNELS :: nat where "vx2_OFFSET_CHANNELS = 0x17c2"
definition vx2_OFFSET_PMS :: nat where "vx2_OFFSET_PMS = 0x5e12"

text \<open>
  \<^verbatim>\<open>freq_to_hz\<close> of vx-2.c: six decimal digits of kHz; a last digit 2 or 7 stands for
  a half step and adds 500 Hz.
\<close>

definition vx2_freq_to_hz :: "mem \<Rightarrow> nat \<Rightarrow> int" where
  "vx2_freq_to_hz m bcd =
     (let a = uint (drop_bit 4 (m bcd));
          b = uint (m bcd AND 15);
          c = uint (drop_bit 4 (m (bcd + 1)));
          d = uint (m (bcd + 1) AND 15);
          e = uint (drop_bit 4 (m (bcd + 2)));
          f = uint (m (bcd + 2) AND 15);
          hz = (((((a * 10 + b) * 10 + c) * 10 + d) * 10 + e) * 10 + f) * 1000
      in if f = 2 \<or> f = 7 then hz + 500 else hz)"

text \<open>\<^verbatim>\<open>hz_to_freq\<close> of vx-2.c: zero is stored as the all-ones filler.\<close>

definition vx2_hz_to_freq :: "int \<Rightarrow> nat \<Rightarrow> mem \<Rightarrow> mem" where
  "vx2_hz_to_freq hz bcd m =
     (if hz = 0 then m (bcd := 0xff, bcd + 1 := 0xff, bcd + 2 := 0xff)
      else m
       (bcd     := word_of_int (push_bit 4 ((hz sdiv 100000000) smod 10) OR ((hz sdiv 10000000) smod 10)),
        bcd + 1 := word_of_int (push_bit 4 ((hz sdiv 1000000) smod 10) OR ((hz sdiv 100000) smod 10)),
        bcd + 2 := word_of_int (push_bit 4 ((hz sdiv 10000) smod 10) OR ((hz sdiv 1000) smod 10))))"

section \<open>C library functions the drivers call\<close>

text \<open>
  C strings are modelled by \<open>string\<close>, the characters before the terminating NUL.
  \<open>cchar s i\<close> reads \<^verbatim>\<open>s[i]\<close>, with the terminator at the end.
\<close>

definition cchar :: "string \<Rightarrow> nat \<Rightarrow> char" where
  "cchar s i = (if i < length s then s ! i else CHR 0x00)"

definition isspace :: "char \<Rightarrow> bool" where
  "isspace c = (c = CHR '' '' \<or> (9 \<le> (of_char c :: nat) \<and> (of_char c :: nat) \<le> 13))"

definition isdigit :: "char \<Rightarrow> bool" where
  "isdigit c = (48 \<le> (of_char c :: nat) \<and> (of_char c :: nat) \<le> 57)"

definition tolower :: "char \<Rightarrow> char" where
  "tolower c = (if 65 \<le> (of_char c :: nat) \<and> (of_char c :: nat) \<le> 90
                then char_of ((of_char c :: nat) + 32) else c)"

text \<open>\<^verbatim>\<open>strcasecmp\<close>: the difference of the first two characters that differ, case folded.\<close>

fun strcasecmp :: "string \<Rightarrow> string \<Rightarrow> int" where
  "strcasecmp [] [] = 0"
| "strcasecmp [] (y # ys) = - int (of_char (tolower y))"
| "strcasecmp (x # xs) [] = int (of_char (tolower x))"
| "strcasecmp (x # xs) (y # ys) =
     (if tolower x = tolower y then strcasecmp xs ys
      else int (of_char (tolower x)) - int (of_char (tolower y)))"

text \<open>
  \<^verbatim>\<open>strncmp(s1, s2, n)\<close> on two character arrays: at most \<open>n\<close> characters are compared,
  and the comparison stops behind a NUL.
\<close>

fun strncmp :: "(nat \<Rightarrow> byte) \<Rightarrow> (nat \<Rightarrow> byte) \<Rightarrow> nat \<Rightarrow> int" where
  "strncmp s1 s2 0 = 0"
| "strncmp s1 s2 (Suc n) =
     (if s1 0 \<noteq> s2 0 then uint (s1 0) - uint (s2 0)
      else if s1 0 = 0 then 0
      else strncmp (\<lambda>i. s1 (Suc i)) (\<lambda>i. s2 (Suc i)) n)"

text \<open>A string literal as a character array: its characters, then NUL.\<close>

definition cstr :: "string \<Rightarrow> nat \<Rightarrow> byte" where
  "cstr s i = (if i < length s then of_char (s ! i) else 0)"

text \<open>
  One \<^verbatim>\<open>%s\<close> conversion of \<^verbatim>\<open>sscanf\<close>: white space is skipped, then the characters up
  to the next white space are taken; at the end of the input the conversion fails.
  \<open>sscanf_s n line\<close> is the list of words that a format of \<open>n\<close> conversions
  \<^verbatim>\<open>"%s %s ..."\<close> stores, so the call returns \<open>n\<close> exactly when this list has \<open>n\<close> words.
\<close>

definition scan_s :: "string \<Rightarrow> (string \<times> string) option" where
  "scan_s s =
     (let s1 = dropWhile isspace s
      in if s1 = [] then None
         else Some (takeWhile (\<lambda>c. \<not> isspace c) s1, dropWhile (\<lambda>c. \<not> isspace c) s1))"

fun sscanf_s :: "nat \<Rightarrow> string \<Rightarrow> string list" where
  "sscanf_s 0 s = []"
| "sscanf_s (Suc n) s =
     (case scan_s s of None \<Rightarrow> [] | Some (w, r) \<Rightarrow> w # sscanf_s n r)"

definition digits_val :: "string \<Rightarrow> nat" where
  "digits_val ds = foldl (\<lambda>a c. 10 * a + ((of_char c :: nat) - 48)) 0 ds"

text \<open>An optional sign in front of a number.\<close>

definition scan_sign :: "string \<Rightarrow> bool \<times> string" where
  "scan_sign s =
     (case s of [] \<Rightarrow> (False, [])
      | c # r \<Rightarrow> if c = CHR ''-'' then (True, r) else if c = CHR ''+'' then (False, r) else (False, s))"

text \<open>\<^verbatim>\<open>atoi\<close>: white space, a sign, decimal digits; 0 when there are no digits.\<close>

definition atoi :: "string \<Rightarrow> int" where
  "atoi s =
     (let (neg, s2) = scan_sign (dropWhile isspace s);
          v = int (digits_val (takeWhile isdigit s2))
      in if neg then - v else v)"

text \<open>
  \<^verbatim>\<open>strtoul(str, &eptr, 10)\<close> with a 64-bit \<^verbatim>\<open>unsigned long\<close>: the value and the rest of
  the string behind the digits. Without digits nothing is converted and \<^verbatim>\<open>eptr\<close> is
  \<^verbatim>\<open>str\<close>. A value that does not fit is \<^verbatim>\<open>ULONG_MAX\<close> (\<open>2^64 - 1\<close>); a minus sign negates modulo \<open>2^64\<close>.
\<close>

definition strtoul :: "string \<Rightarrow> nat \<times> string" where
  "strtoul s =
     (let (neg, s2) = scan_sign (dropWhile isspace s);
          ds = takeWhile isdigit s2;
          v = digits_val ds
      in if ds = [] then (0, s)
         else (if 18446744073709551616 \<le> v then 18446744073709551615
               else if neg then (18446744073709551616 - v) mod 18446744073709551616 else v,
               dropWhile isdigit s2))"

text \<open>Storing an \<^verbatim>\<open>unsigned long\<close> or \<^verbatim>\<open>unsigned\<close> into an \<^verbatim>\<open>int\<close> of 32 bits.\<close>

definition int_of_unsigned :: "nat \<Rightarrow> int" where
  "int_of_unsigned u = sint (word_of_nat u :: 32 word)"

text \<open>
  \<^verbatim>\<open>sscanf(str, "%u", &val)\<close>: the 32-bit value, or \<open>None\<close> when no number is there.
\<close>

definition scan_u :: "string \<Rightarrow> nat option" where
  "scan_u s =
     (let (neg, s2) = scan_sign (dropWhile isspace s);
          ds = takeWhile isdigit s2;
          v = digits_val ds
      in if ds = [] then None
         else Some (if neg then (4294967296 - v mod 4294967296) mod 4294967296
                    else v mod 4294967296))"

text \<open>Conversion of a \<^verbatim>\<open>double\<close> to \<^verbatim>\<open>int\<close>: the fraction is dropped.\<close>

definition trunc :: "real \<Rightarrow> int" where
  "trunc x = (if 0 \<le> x then \<lfloor>x\<rfloor> else \<lceil>x\<rceil>)"

text \<open>
  What the drivers take from outside their own file: the tables of CTCSS tones and DCS
  codes of util.c with their sizes, and the conversion \<^verbatim>\<open>sscanf(str, "%lf", &x)\<close> of a
  decimal number (\<open>None\<close> when it does not return 1). A \<^verbatim>\<open>double\<close> is idealised as a
  real number: no statement below depends on the rounding of a floating-point operation.
\<close>

record env =
  CTCSS_TONES :: "nat \<Rightarrow> int"
  NCTCSS :: nat
  DCS_CODES :: "nat \<Rightarrow> int"
  NDCS :: nat
  scan_double :: "string \<Rightarrow> real option"

text \<open>The search loops \<^verbatim>\<open>for (i=0; i<N; i++) if (TABLE[i] == val) return i; return -1;\<close>.\<close>

definition table_index :: "(nat \<Rightarrow> int) \<Rightarrow> nat \<Rightarrow> int \<Rightarrow> int" where
  "table_index tab n val =
     (case find (\<lambda>i. tab i = val) [0..<n] of Some i \<Rightarrow> int i | None \<Rightarrow> - 1)"

section \<open>Bit fields\<close>

text \<open>
  The channel records are C structs of bit fields in \<^verbatim>\<open>uint8_t\<close> units. The fields of one
  byte are laid out from the least significant bit, in the order of declaration, as the
  compilers for the little-endian hosts of the program do (the sample records quoted in
  vx-2.c agree). \<open>get_bits b p w\<close> reads the field of width \<open>w\<close> at bit \<open>p\<close>;
  \<open>set_bits b p w v\<close> assigns \<open>v\<close> to it, truncated to the width, and keeps the other bits.
\<close>

definition get_bits :: "byte \<Rightarrow> nat \<Rightarrow> nat \<Rightarrow> int" where
  "get_bits b p w = uint (drop_bit p b AND mask w)"

definition set_bits :: "byte \<Rightarrow> nat \<Rightarrow> nat \<Rightarrow> int \<Rightarrow> byte" where
  "set_bits b p w v = (b AND NOT (push_bit p (mask w))) OR push_bit p (word_of_int v AND mask w)"

definition set_field :: "nat \<Rightarrow> nat \<Rightarrow> nat \<Rightarrow> int \<Rightarrow> mem \<Rightarrow> mem" where
  "set_field a p w v m = m (a := set_bits (m a) p w v)"

text \<open>
  A compound assignment to a byte of the image, such as \<^verbatim>\<open>*ptr &= ~(0xf << shift)\<close>: the
  byte is promoted to \<^verbatim>\<open>int\<close>, combined, and stored modulo 256.
\<close>

definition update_byte :: "nat \<Rightarrow> (int \<Rightarrow> int) \<Rightarrow> mem \<Rightarrow> mem" where
  "update_byte a f m = m (a := word_of_int (f (uint (m a))))"

text \<open>A sequence of assignments to the image, carried out from the first to the last.\<close>

definition assignments :: "(mem \<Rightarrow> mem) list \<Rightarrow> mem \<Rightarrow> mem" where
  "assignments steps m = fold (\<lambda>step. step) steps m"

section \<open>FT-60R: channel records\<close>

definition ft60_CHARSET :: string where
  "ft60_CHARSET = ''0123456789ABCDEFGHIJKLMNOPQRSTUVWXYZ !'' @ [CHR 0x60] @ ''o$%&'' @ [CHR 0x27]
                  @ ''()*+,-./|;/=>?@[~]^__''"

definition ft60_NCHARS :: nat where "ft60_NCHARS = 65"
definition ft60_SPACE :: nat where "ft60_SPACE = 36"
definition ft60_OPENBOX :: nat where "ft60_OPENBOX = 64"

definition ft60_D_SIMPLEX :: int where "ft60_D_SIMPLEX = 0"
definition ft60_D_NEG_OFFSET :: int where "ft60_D_NEG_OFFSET = 2"
definition ft60_D_POS_OFFSET :: int where "ft60_D_POS_OFFSET = 3"
definition ft60_D_CROSS_BAND :: int where "ft60_D_CROSS_BAND = 4"

definition ft60_T_OFF :: int where "ft60_T_OFF = 0"
definition ft60_T_TONE :: int where "ft60_T_TONE = 1"
definition ft60_T_TSQL :: int where "ft60_T_TSQL = 2"
definition ft60_T_TSQL_REV :: int where "ft60_T_TSQL_REV = 3"
definition ft60_T_DTCS :: int where "ft60_T_DTCS = 4"
definition ft60_T_D :: int where "ft60_T_D = 5"
definition ft60_T_T_DCS :: int where "ft60_T_T_DCS = 6"
definition ft60_T_D_TSQL :: int where "ft60_T_D_TSQL = 7"

definition ft60_TONE_DEFAULT :: int where "ft60_TONE_DEFAULT = 12"
definition ft60_STEP_5 :: int where "ft60_STEP_5 = 0"
definition ft60_STEP_12_5 :: int where "ft60_STEP_12_5 = 2"

text \<open>
  \<^verbatim>\<open>memory_channel_t\<close> of ft-60.c, 16 bytes; the record of channel \<open>i\<close> of the table at
  \<open>seek\<close> starts at \<open>seek + 16 * i\<close>. Byte 0: duplex (bits 0-3), isam (4), isnarrow (5),
  _u1 (6), used (7). Bytes 1-3: rxfreq. Byte 4: tmode (0-2), step (3-5), _u2 (6-7).
  Bytes 5-7: txfreq. Byte 8: tone (0-5), power (6-7). Byte 9: dtcs (0-6), _u3 (7).
  Bytes 10-11: _u4. Byte 12: offset. Bytes 13-15: _u5.
  \<^verbatim>\<open>memory_name_t\<close>, 8 bytes at \<open>OFFSET_NAMES + 8 * i\<close>: name[6], then used (bit 7 of
  byte 6) and valid (bit 7 of byte 7).
\<close>

text \<open>What \<^verbatim>\<open>decode_channel\<close> stores through its pointer arguments.\<close>

record channel =
  name :: "string option"
  rx_hz :: int
  tx_hz :: int
  rx_ctcs :: int
  tx_ctcs :: int
  rx_dcs :: int
  tx_dcs :: int
  power :: int
  scan :: int
  step :: int

record ft60_channel = channel +
  wide :: int
  isam :: int

text \<open>
  \<^verbatim>\<open>decode_name(i, name)\<close> of ft-60.c. The buffer \<open>name\<close> is left as it is unless the
  name record is valid and used; otherwise it receives the six characters, spaces shown
  as underscores, cut behind the last character that is not an underscore.
\<close>

definition ft60_decode_name :: "mem \<Rightarrow> nat \<Rightarrow> string \<Rightarrow> string" where
  "ft60_decode_name m i buf =
     (let nm = ft60_OFFSET_NAMES + 8 * i
      in if get_bits (m (nm + 7)) 7 1 \<noteq> 0 \<and> get_bits (m (nm + 6)) 7 1 \<noteq> 0
         then let cs = map (\<lambda>n. let c = unat (m (nm + n));
                                   ch = (if c < ft60_NCHARS then ft60_CHARSET ! c else CHR '' '')
                               in if ch = CHR '' '' then CHR ''_'' else ch) [0..<6]
              in rev (dropWhile (\<lambda>c. c = CHR ''_'') (rev cs))
         else buf)"

text \<open>
  \<^verbatim>\<open>decode_channel(i, seek, name, ...)\<close> of ft-60.c. The argument \<open>nm\<close> is the name
  buffer: \<open>None\<close> for a null pointer, otherwise its contents (overwritten).
\<close>

definition ft60_decode_channel :: "env \<Rightarrow> mem \<Rightarrow> nat \<Rightarrow> nat \<Rightarrow> string option \<Rightarrow> ft60_channel" where
  "ft60_decode_channel E m i seek nm =
     (let ch = seek + 16 * i;
          scan_data = uint (m (ft60_OFFSET_SCAN + i div 4));
          cleared = \<lparr>name = map_option (\<lambda>_. []) nm, rx_hz = 0, tx_hz = 0, rx_ctcs = 0, tx_ctcs = 0,
                     rx_dcs = 0, tx_dcs = 0, power = 0, scan = 0, step = 0, wide = 0, isam = 0\<rparr>
      in if get_bits (m ch) 7 1 = 0 \<and> (seek = ft60_OFFSET_CHANNELS \<or> seek = ft60_OFFSET_PMS)
         then cleared
         else
           let name1 = (if nm \<noteq> None \<and> seek = ft60_OFFSET_CHANNELS
                        then Some (ft60_decode_name m i []) else map_option (\<lambda>_. []) nm);
               rx = ft60_freq_to_hz m (ch + 1);
               duplex = get_bits (m ch) 0 4;
               tx = (if duplex = ft60_D_NEG_OFFSET then rx - uint (m (ch + 12)) * 50000
                     else if duplex = ft60_D_POS_OFFSET then rx + uint (m (ch + 12)) * 50000
                     else if duplex = ft60_D_CROSS_BAND then ft60_freq_to_hz m (ch + 5)
                     else rx);
               tmode = get_bits (m (ch + 4)) 0 3;
               tone = CTCSS_TONES E (nat (get_bits (m (ch + 8)) 0 6));
               dtcs = DCS_CODES E (nat (get_bits (m (ch + 9)) 0 7));
               txc = (if tmode = ft60_T_TONE \<or> tmode = ft60_T_TSQL \<or> tmode = ft60_T_TSQL_REV
                         \<or> tmode = ft60_T_T_DCS then tone else 0);
               rxc = (if tmode = ft60_T_TSQL \<or> tmode = ft60_T_D_TSQL then tone
                      else if tmode = ft60_T_TSQL_REV then - tone else 0);
               txd = (if tmode = ft60_T_DTCS \<or> tmode = ft60_T_D \<or> tmode = ft60_T_D_TSQL
                      then dtcs else 0);
               rxd = (if tmode = ft60_T_DTCS \<or> tmode = ft60_T_T_DCS then dtcs else 0)
           in \<lparr>name = name1, rx_hz = rx, tx_hz = tx, rx_ctcs = rxc, tx_ctcs = txc,
               rx_dcs = rxd, tx_dcs = txd,
               power = get_bits (m (ch + 8)) 6 2,
               scan = drop_bit 6 (push_bit ((i AND 3) * 2) scan_data) AND 3,
               step = get_bits (m (ch + 4)) 3 3,
               wide = (if get_bits (m ch) 5 1 = 0 then 1 else 0),
               isam = get_bits (m ch) 4 1\<rparr>)"

text \<open>\<^verbatim>\<open>encode_char\<close> and \<^verbatim>\<open>encode_name(i, name)\<close> of ft-60.c.\<close>

definition ft60_encode_char :: "char \<Rightarrow> nat" where
  "ft60_encode_char c0 =
     (let c1 = (if c0 = CHR ''_'' then CHR '' '' else c0);
          c = (if 97 \<le> (of_char c1 :: nat) \<and> (of_char c1 :: nat) \<le> 122
               then char_of ((of_char c1 :: nat) - 32) else c1)
      in case find (\<lambda>i. c = ft60_CHARSET ! i) [0..<ft60_NCHARS] of
           Some i \<Rightarrow> i | None \<Rightarrow> ft60_OPENBOX)"

definition ft60_encode_name :: "nat \<Rightarrow> string option \<Rightarrow> mem \<Rightarrow> mem" where
  "ft60_encode_name i nm m =
     (let a = ft60_OFFSET_NAMES + 8 * i;
          s = (case nm of None \<Rightarrow> [] | Some s \<Rightarrow> s)
      in if nm \<noteq> None \<and> s \<noteq> [] \<and> hd s \<noteq> CHR ''-''
         then let m = set_field (a + 7) 7 1 1 m;
                  m = set_field (a + 6) 7 1 1 m
              in store_bytes m a
                   (map (\<lambda>n. if n < length s then word_of_nat (ft60_encode_char (s ! n))
                              else word_of_nat ft60_SPACE) [0..<6])
         else let m = set_field (a + 7) 7 1 0 m;
                  m = set_field (a + 6) 7 1 0 m
              in store_bytes m a (replicate 6 0xff))"

text \<open>
  \<^verbatim>\<open>setup_channel\<close> of ft-60.c: the assignments to the record in the order of the source,
  then the two bits of the scan mode in the table at \<open>OFFSET_SCAN\<close>, then the name.
\<close>

definition ft60_setup_channel ::
  "nat \<Rightarrow> string option \<Rightarrow> real \<Rightarrow> real \<Rightarrow> int \<Rightarrow> int \<Rightarrow> int \<Rightarrow> int \<Rightarrow> int \<Rightarrow> int \<Rightarrow> int \<Rightarrow> mem \<Rightarrow> mem" where
  "ft60_setup_channel i nm rx_mhz tx_mhz tmode tone dtcs pwr wd scn am =
     (let ch = ft60_OFFSET_CHANNELS + 16 * i;
          offset_mhz = tx_mhz - rx_mhz;
          scan_data = ft60_OFFSET_SCAN + i div 4;
          scan_shift = (i AND 3) * 2
      in assignments
          [ft60_hz_to_freq (trunc (rx_mhz * 1000000)) (ch + 1),
           (\<lambda>m. m (ch + 12 := 0)),
           (\<lambda>m. m (ch + 5 := 0, ch + 6 := 0, ch + 7 := 0)),
           (if offset_mhz = 0 then assignments [set_field ch 0 4 ft60_D_SIMPLEX]
            else if 0 < offset_mhz \<and> offset_mhz < 256 * 0.05
            then assignments
                   [set_field ch 0 4 ft60_D_POS_OFFSET,
                    (\<lambda>m. m (ch + 12 := word_of_int (trunc (offset_mhz / 0.05 + 0.5))))]
            else if offset_mhz < 0 \<and> offset_mhz > - 256 * 0.05
            then assignments
                   [set_field ch 0 4 ft60_D_NEG_OFFSET,
                    (\<lambda>m. m (ch + 12 := word_of_int (trunc (- offset_mhz / 0.05 + 0.5))))]
            else assignments
                   [set_field ch 0 4 ft60_D_CROSS_BAND,
                    ft60_hz_to_freq (trunc (tx_mhz * 1000000)) (ch + 5)]),
           set_field ch 7 1 (if 0 < rx_mhz then 1 else 0),
           set_field (ch + 4) 0 3 tmode,
           set_field (ch + 8) 0 6 tone,
           set_field (ch + 9) 0 7 dtcs,
           set_field (ch + 8) 6 2 pwr,
           set_field ch 5 1 (if wd = 0 then 1 else 0),
           set_field ch 4 1 am,
           set_field (ch + 4) 3 3 (if 400 \<le> rx_mhz then ft60_STEP_12_5 else ft60_STEP_5),
           set_field ch 6 1 0,
           set_field (ch + 4) 6 2 (if 400 \<le> rx_mhz then 1 else 0),
           set_field (ch + 9) 7 1 0,
           (\<lambda>m. m (ch + 10 := 15, ch + 11 := 0)),
           (\<lambda>m. m (ch + 13 := 0, ch + 14 := 0, ch + 15 := 0)),
           update_byte scan_data (\<lambda>v. v AND NOT (push_bit scan_shift 3)),
           update_byte scan_data (\<lambda>v. v OR push_bit scan_shift scn),
           ft60_encode_name i nm])"

section \<open>FT-60R: parsing a row of the channel table\<close>

text \<open>
  \<^verbatim>\<open>encode_tone\<close>, \<^verbatim>\<open>encode_dcs\<close> and \<^verbatim>\<open>encode_squelch\<close> of ft-60.c. The tone in Hz is
  multiplied by ten and rounded; \<open>- 1\<close> stands for a value that is not in the table.
\<close>

definition ft60_encode_tone :: "env \<Rightarrow> string \<Rightarrow> int" where
  "ft60_encode_tone E str =
     (case scan_double E str of None \<Rightarrow> - 1
      | Some hz \<Rightarrow>
          let val = trunc (hz * 10 + 0.5)
          in if val < 0x0258 then - 1 else table_index (CTCSS_TONES E) (NCTCSS E) val)"

definition ft60_encode_dcs :: "env \<Rightarrow> string \<Rightarrow> int" where
  "ft60_encode_dcs E str =
     (case scan_u (tl str) of None \<Rightarrow> - 1
      | Some val \<Rightarrow> table_index (DCS_CODES E) (NDCS E) (int val))"

text \<open>The result is \<open>(tmode, tone, dtcs)\<close>.\<close>

definition ft60_encode_squelch :: "env \<Rightarrow> string \<Rightarrow> string \<Rightarrow> int \<times> int \<times> int" where
  "ft60_encode_squelch E rx tx =
     (let rx_dcs = (if cchar rx 0 = CHR ''D'' \<or> cchar rx 0 = CHR ''d''
                    then ft60_encode_dcs E rx else - 1);
          rx_is_dcs = (cchar rx 0 = CHR ''D'' \<or> cchar rx 0 = CHR ''d'');
          rx_plain = (\<not> rx_is_dcs \<and> isdigit (cchar rx 0));
          rx_minus = (\<not> rx_is_dcs \<and> \<not> rx_plain \<and> cchar rx 0 = CHR ''-'' \<and> isdigit (cchar rx 1));
          rx_tone = (if rx_plain then ft60_encode_tone E rx
                     else if rx_minus then ft60_encode_tone E (tl rx) else - 1);
          rx_rev = rx_minus;
          tx_is_dcs = (cchar tx 0 = CHR ''D'' \<or> cchar tx 0 = CHR ''d'');
          tx_dcs = (if tx_is_dcs then ft60_encode_dcs E tx else - 1);
          tx_tone = (if \<not> tx_is_dcs \<and> isdigit (cchar tx 0) then ft60_encode_tone E tx else - 1)
      in if 0 \<le> rx_dcs
         then (if 0 \<le> tx_tone then (ft60_T_T_DCS, tx_tone, rx_dcs)
               else (ft60_T_DTCS, ft60_TONE_DEFAULT, rx_dcs))
         else if 0 \<le> tx_dcs
         then (if 0 \<le> rx_tone then (ft60_T_D_TSQL, rx_tone, tx_dcs)
               else (ft60_T_D, ft60_TONE_DEFAULT, tx_dcs))
         else if 0 \<le> tx_tone
         then (if rx_tone < 0 then (ft60_T_TONE, tx_tone, 0)
               else if rx_rev then (ft60_T_TSQL_REV, tx_tone, 0)
               else (ft60_T_TSQL, tx_tone, 0))
         else (ft60_T_OFF, ft60_TONE_DEFAULT, 0))"

text \<open>\<^verbatim>\<open>is_valid_frequency(int mhz)\<close> of ft-60.c; its callers pass a \<^verbatim>\<open>double\<close>.\<close>

definition ft60_is_valid_frequency :: "int \<Rightarrow> bool" where
  "ft60_is_valid_frequency mhz = ((108 \<le> mhz \<and> mhz \<le> 520) \<or> (700 \<le> mhz \<and> mhz \<le> 999))"

text \<open>
  \<^verbatim>\<open>parse_channel(first_row, line)\<close> of ft-60.c. The result is the returned value and
  the memory image afterwards. Every check that makes the function return 0 comes before
  the first write to the image. The messages on \<^verbatim>\<open>stderr\<close> are not modelled.
\<close>

definition ft60_parse_power :: "string \<Rightarrow> int option" where
  "ft60_parse_power power_str =
     (if strcasecmp ''High'' power_str = 0 then Some 0
      else if strcasecmp ''Mid'' power_str = 0 then Some 1
      else if strcasecmp ''Low'' power_str = 0 then Some 2
      else None)"

definition ft60_parse_wide :: "string \<Rightarrow> (int \<times> int) option" where
  "ft60_parse_wide wide_str =
     (if strcasecmp ''Wide'' wide_str = 0 then Some (1, 0)
      else if strcasecmp ''Narrow'' wide_str = 0 then Some (0, 0)
      else if strcasecmp ''AM'' wide_str = 0 then Some (1, 1)
      else None)"

definition parse_scan :: "string \<Rightarrow> int option" where
  "parse_scan scan_str =
     (if cchar scan_str 0 = CHR ''+'' then Some 0
      else if cchar scan_str 0 = CHR ''-'' then Some 1
      else if strcasecmp ''Only'' scan_str = 0 then Some 2
      else None)"

definition ft60_parse_channel :: "env \<Rightarrow> bool \<Rightarrow> string \<Rightarrow> mem \<Rightarrow> int \<times> mem" where
  "ft60_parse_channel E first_row line m =
     (let f = sscanf_s 9 line
      in if length f \<noteq> 9 then (0, m)
         else
           let num_str = f ! 0; name_str = f ! 1; rxfreq_str = f ! 2; offset_str = f ! 3;
               rq_str = f ! 4; tq_str = f ! 5; power_str = f ! 6; wide_str = f ! 7;
               scan_str = f ! 8;
               num = atoi num_str
           in if num < 1 \<or> num > int ft60_NCHAN then (0, m)
              else case scan_double E rxfreq_str of None \<Rightarrow> (0, m)
              | Some rx_mhz \<Rightarrow>
                if \<not> ft60_is_valid_frequency (trunc rx_mhz) then (0, m)
                else case scan_double E offset_str of None \<Rightarrow> (0, m)
                | Some tx0 \<Rightarrow>
                  let tx_mhz = (if cchar offset_str 0 = CHR ''-'' \<or> cchar offset_str 0 = CHR ''+''
                                then tx0 + rx_mhz else tx0)
                  in if \<not> ft60_is_valid_frequency (trunc tx_mhz) then (0, m)
                     else
                       let (tmode, tone, dtcs) = ft60_encode_squelch E rq_str tq_str
                       in case ft60_parse_power power_str of None \<Rightarrow> (0, m)
                          | Some pwr \<Rightarrow>
                            (case ft60_parse_wide wide_str of None \<Rightarrow> (0, m)
                             | Some (wd, am) \<Rightarrow>
                               (case parse_scan scan_str of None \<Rightarrow> (0, m)
                                | Some scn \<Rightarrow>
                                  let m1 = (if first_row
                                            then fold (\<lambda>i. ft60_setup_channel i None 0 0 0
                                                         ft60_TONE_DEFAULT 0 0 1 0 0)
                                                   [0..<ft60_NCHAN] m
                                            else m)
                                  in (1, ft60_setup_channel (nat (num - 1)) (Some name_str)
                                          rx_mhz tx_mhz tmode tone dtcs pwr wd scn am m1))))"

section \<open>Printing numbers\<close>

text \<open>The conversions \<^verbatim>\<open>%d\<close> and \<^verbatim>\<open>%4d\<close> of \<^verbatim>\<open>fprintf\<close>.\<close>

function show_nat :: "nat \<Rightarrow> string" where
  "show_nat n =
     (if n < 10 then [char_of (48 + n)] else show_nat (n div 10) @ [char_of (48 + n mod 10)])"
  by pat_completeness auto
termination
  by (relation "measure id") auto

definition show_int :: "int \<Rightarrow> string" where
  "show_int i = (if i < 0 then CHR ''-'' # show_nat (nat (- i)) else show_nat (nat i))"

definition show_int4 :: "int \<Rightarrow> string" where
  "show_int4 i = replicate (4 - length (show_int i)) CHR '' '' @ show_int i"

section \<open>FT-60R: banks\<close>

text \<open>
  A bank is a bitmap of 128 bytes at \<open>OFFSET_BANKS + bank * 0x80\<close>; channel \<open>n\<close>
  (counted from 0) is bit \<open>n mod 8\<close> of byte \<open>n div 8\<close>. \<^verbatim>\<open>setup_bank\<close> of ft-60.c:
\<close>

definition ft60_setup_bank :: "nat \<Rightarrow> nat \<Rightarrow> mem \<Rightarrow> mem" where
  "ft60_setup_bank bank_index chan_index m =
     (let data = ft60_OFFSET_BANKS + bank_index * 0x80 + chan_index div 8
      in m (data := word_of_int (uint (m data) OR push_bit (chan_index AND 7) 1)))"

text \<open>The test \<^verbatim>\<open>data[n/8] & (1 << (n & 7))\<close> of \<^verbatim>\<open>print_bank\<close>.\<close>

definition ft60_chan_in_bank :: "mem \<Rightarrow> nat \<Rightarrow> nat \<Rightarrow> bool" where
  "ft60_chan_in_bank m i n =
     (uint (m (ft60_OFFSET_BANKS + i * 0x80 + n div 8)) AND push_bit (n AND 7) 1 \<noteq> 0)"

text \<open>
  \<^verbatim>\<open>print_bank(out, i)\<close> of ft-60.c. The state of the loop over the channels is the text
  printed so far, \<^verbatim>\<open>last\<close> (here \<open>lst\<close>) and \<^verbatim>\<open>range\<close> (here \<open>rng\<close>).
\<close>

function ft60_print_bank_loop :: "mem \<Rightarrow> nat \<Rightarrow> nat \<Rightarrow> string \<times> int \<times> bool \<Rightarrow> string \<times> int \<times> bool" where
  "ft60_print_bank_loop m i n (out, lst, rng) =
     (if n < ft60_NCHAN
      then let cnum = int n + 1
           in if \<not> ft60_chan_in_bank m i n
              then ft60_print_bank_loop m i (n + 1) (out, lst, rng)
              else if cnum = lst + 1
              then ft60_print_bank_loop m i (n + 1) (out, cnum, True)
              else let out1 = (if rng then out @ ''-'' @ show_int lst else out);
                       out2 = (if 0 \<le> lst then out1 @ '','' else out1)
                   in ft60_print_bank_loop m i (n + 1) (out2 @ show_int cnum, cnum, False)
      else (out, lst, rng))"
  by pat_completeness auto
termination
  by (relation "measure (\<lambda>(m, i, n, st). ft60_NCHAN - n)") auto

definition ft60_print_bank :: "mem \<Rightarrow> nat \<Rightarrow> string" where
  "ft60_print_bank m i =
     (let (out, lst, rng) =
            ft60_print_bank_loop m i 0 (show_int4 (int i + 1) @ ''    '', - 1, False)
      in (if rng then out @ ''-'' @ show_int lst else out) @ [CHR 0x0A])"

lemma scan_sign_length: "length (snd (scan_sign s)) \<le> length s"
  by (cases s) (simp_all add: scan_sign_def)

lemma strtoul_length: "length (snd (strtoul s)) \<le> length s"
proof -
  have "length (dropWhile isdigit (snd (scan_sign (dropWhile isspace s)))) \<le> length s"
    by (meson length_dropWhile_le order_trans scan_sign_length)
  then show ?thesis
    by (simp add: strtoul_def Let_def split_beta)
qed

text \<open>
  The loop over the channel list of \<^verbatim>\<open>parse_banks\<close> in ft-60.c, from \<^verbatim>\<open>str\<close>,
  \<^verbatim>\<open>range\<close> and \<^verbatim>\<open>last\<close>. The pointers \<^verbatim>\<open>eptr\<close> and \<^verbatim>\<open>str\<close> into the same string are
  equal when what is left has the same length. The counter \<^verbatim>\<open>nchan\<close> is never read in
  ft-60.c. The result is the returned value and the image.
\<close>

function ft60_parse_chan_list :: "nat \<Rightarrow> string \<Rightarrow> bool \<Rightarrow> int \<Rightarrow> mem \<Rightarrow> int \<times> mem" where
  "ft60_parse_chan_list bank str rng lst m =
     (let eptr = snd (strtoul str);
          cnum = int_of_unsigned (fst (strtoul str))
      in if length eptr = length str then (0, m)
         else if cnum < 1 \<or> cnum > int ft60_NCHAN then (0, m)
         else
           let m1 = (if rng then fold (ft60_setup_bank bank) [nat lst..<nat cnum] m
                     else ft60_setup_bank bank (nat (cnum - 1)) m)
           in if eptr = [] then (1, m1)
              else if hd eptr \<noteq> CHR '','' \<and> hd eptr \<noteq> CHR ''-'' then (0, m1)
              else ft60_parse_chan_list bank (tl eptr) (hd eptr = CHR ''-'') cnum m1)"
  by pat_completeness auto
termination
proof (relation "measure (\<lambda>(bank, str, rng, lst, m). length str)", goal_cases)
  case 1
  show ?case by simp
next
  case (2 bank str rng lst m eptr cnum m1)
  have "length (tl eptr) < length eptr" using 2 by (cases eptr) simp_all
  moreover have "length eptr \<le> length str" using 2 strtoul_length [of str] by simp
  ultimately show ?case by simp
qed

text \<open>\<^verbatim>\<open>parse_banks(first_row, line)\<close> of ft-60.c.\<close>

definition ft60_parse_banks :: "bool \<Rightarrow> string \<Rightarrow> mem \<Rightarrow> int \<times> mem" where
  "ft60_parse_banks first_row line m =
     (let f = sscanf_s 2 line
      in if length f \<noteq> 2 then (0, m)
         else
           let bnum = atoi (f ! 0); chan_str = f ! 1
           in if bnum < 1 \<or> bnum > int ft60_NBANKS then (0, m)
              else
                let m1 = (if first_row
                          then memset m ft60_OFFSET_BANKS 0 (ft60_NBANKS * 0x80) else m)
                in if cchar chan_str 0 = CHR ''-'' then (1, m1)
                   else ft60_parse_chan_list (nat (bnum - 1)) chan_str False 0 m1)"

section \<open>The serial line\<close>

text \<open>
  The device on the serial line is a script: the bursts of bytes it will send, each
  followed by silence for longer than the read timeout, and the bytes written to it so far.
\<close>

record serial =
  rx_bursts :: "byte list list"
  tx_bytes :: "byte list"

text \<open>
  Modelled from the spec: \<^verbatim>\<open>serial_read(fd, data, nbytes)\<close> of the serial layer, which is
  not part of the two driver files. "Every serial operation blocks until its fixed byte
  count is read or written, or until a bounded OS-level read timeout elapses": a read
  takes up to \<open>nbytes\<close> bytes of the next burst and leaves the rest of the burst for the
  next read; when the device stays silent it returns no bytes. The function returns the
  bytes it stored, so the C return value is their number.
\<close>

definition serial_read :: "nat \<Rightarrow> serial \<Rightarrow> byte list \<times> serial" where
  "serial_read nbytes p =
     (case rx_bursts p of
        [] \<Rightarrow> ([], p)
      | c # cs \<Rightarrow> (take nbytes c, p\<lparr>rx_bursts := (if drop nbytes c = [] then cs else drop nbytes c # cs)\<rparr>))"

text \<open>Modelled from the spec: \<^verbatim>\<open>serial_write(fd, data, nbytes)\<close> of the serial layer.\<close>

definition serial_write :: "byte list \<Rightarrow> serial \<Rightarrow> serial" where
  "serial_write bs p = p\<lparr>tx_bytes := tx_bytes p @ bs\<rparr>"

text \<open>
  Modelled from the spec: \<^verbatim>\<open>serial_flush(fd)\<close> of the serial layer, which drops input
  that has arrived and was not read. The script holds what the reads after it deliver.
\<close>

definition serial_flush :: "serial \<Rightarrow> serial" where
  "serial_flush p = p"

text \<open>
  The globals of a transfer: the image, the port, the progress counter and the
  verbosity flag. A call of \<^verbatim>\<open>exit(-1)\<close> ends the run with the diagnostic printed
  just before it.
\<close>

record radio =
  radio_mem :: mem
  radio_port :: serial
  radio_progress :: nat
  serial_verbose :: bool

datatype diag =
  Short_Read nat nat        \<comment> \<open>"Reading block 0x%04x: got only %d bytes."\<close>
| No_Acknowledge nat        \<comment> \<open>"No acknowledge after block 0x%04x."\<close>
| Bad_Acknowledge nat byte  \<comment> \<open>"Bad acknowledge after block 0x%04x: %02x"\<close>
| Too_Many_Channels nat     \<comment> \<open>"Bank %d: too many channels."\<close>

text \<open>The tick of the progress counter at the end of a block.\<close>

definition tick :: "radio \<Rightarrow> radio" where
  "tick s = (if serial_verbose s then s else s\<lparr>radio_progress := radio_progress s + 1\<rparr>)"

text \<open>
  The checksum loop of both drivers:
  \<^verbatim>\<open>sum = 0; for (addr=0; addr<MEMSZ; addr++) sum += radio_mem[addr];\<close>
\<close>

definition checksum :: "mem \<Rightarrow> nat \<Rightarrow> int" where
  "checksum m n = sum_list (map (\<lambda>addr. uint (m addr)) [0..<n])"

section \<open>FT-60R: clone transfer\<close>

text \<open>
  \<^verbatim>\<open>read_block(fd, start, data, nbytes)\<close> of ft-60.c; \<open>data\<close> is the address in the image
  that the pointer refers to. \<open>Inl\<close> is the exit of the program, \<open>Inr\<close> the returned
  value and the state.
\<close>

definition ft60_read_block :: "nat \<Rightarrow> nat \<Rightarrow> nat \<Rightarrow> radio \<Rightarrow> diag + (int \<times> radio)" where
  "ft60_read_block start data nbytes s =
     (let (got, p1) = serial_read nbytes (radio_port s);
          s1 = s\<lparr>radio_mem := store_bytes (radio_mem s) data got, radio_port := p1\<rparr>
      in if length got \<noteq> nbytes
         then (if start = 0 then Inr (0, s1) else Inl (Short_Read start (length got)))
         else
           let (reply, p3) = serial_read 1 (serial_write [0x06] p1)
           in if length reply \<noteq> 1 then Inl (No_Acknowledge start)
              else if hd reply \<noteq> 0x06 then Inl (Bad_Acknowledge start (hd reply))
              else Inr (1, tick (s1\<lparr>radio_port := p3\<rparr>)))"

text \<open>\<^verbatim>\<open>write_block(fd, start, data, nbytes)\<close> of ft-60.c: it returns 0 on an error.\<close>

definition ft60_write_block :: "nat \<Rightarrow> nat \<Rightarrow> nat \<Rightarrow> radio \<Rightarrow> int \<times> radio" where
  "ft60_write_block start data nbytes s =
     (let p1 = serial_write (map (radio_mem s) [data..<data + nbytes]) (radio_port s);
          (echo, p2) = serial_read nbytes p1
      in if length echo \<noteq> nbytes then (0, s\<lparr>radio_port := p2\<rparr>)
         else
           let (reply, p3) = serial_read 1 p2
           in if length reply \<noteq> 1 then (0, s\<lparr>radio_port := p3\<rparr>)
              else if hd reply \<noteq> 0x06 then (0, s\<lparr>radio_port := p3\<rparr>)
              else (1, tick (s\<lparr>radio_port := p3\<rparr>)))"

text \<open>
  \<^verbatim>\<open>ft60_download\<close>. The loop \<^verbatim>\<open>while (read_block(radio_port, 0, &radio_mem[0], 8) == 0)
  continue;\<close> and the jump back to \<^verbatim>\<open>again\<close> after a bad checksum need not end: both
  take fuel, and \<open>None\<close> says that the fuel ran out.
\<close>

fun ft60_await_first :: "nat \<Rightarrow> radio \<Rightarrow> (diag + radio) option" where
  "ft60_await_first 0 s = None"
| "ft60_await_first (Suc k) s =
     (case ft60_read_block 0 0 8 s of
        Inl e \<Rightarrow> Some (Inl e)
      | Inr (r, s1) \<Rightarrow> if r = 0 then ft60_await_first k s1 else Some (Inr s1))"

text \<open>\<^verbatim>\<open>for (addr=8; addr<MEMSZ; addr+=64) read_block(radio_port, addr, &radio_mem[addr], 64);\<close>\<close>

function ft60_read_rest :: "nat \<Rightarrow> radio \<Rightarrow> diag + radio" where
  "ft60_read_rest addr s =
     (if addr < ft60_MEMSZ
      then case ft60_read_block addr addr 64 s of
             Inl e \<Rightarrow> Inl e
           | Inr (r, s1) \<Rightarrow> ft60_read_rest (addr + 64) s1
      else Inr s)"
  by pat_completeness auto
termination
  by (relation "measure (\<lambda>(addr, s). ft60_MEMSZ - addr)") auto

fun ft60_download :: "nat \<Rightarrow> radio \<Rightarrow> (diag + radio) option" where
  "ft60_download 0 s = None"
| "ft60_download (Suc k) s =
     (case ft60_await_first (Suc k) s of
        None \<Rightarrow> None
      | Some (Inl e) \<Rightarrow> Some (Inl e)
      | Some (Inr s1) \<Rightarrow>
          (case ft60_read_rest 8 s1 of
             Inl e \<Rightarrow> Some (Inl e)
           | Inr s2 \<Rightarrow>
               (case ft60_read_block ft60_MEMSZ ft60_MEMSZ 1 s2 of
                  Inl e \<Rightarrow> Some (Inl e)
                | Inr (r, s3) \<Rightarrow>
                    if checksum (radio_mem s3) ft60_MEMSZ AND 0xff \<noteq> uint (radio_mem s3 ft60_MEMSZ)
                    then ft60_download k s3
                    else Some (Inr s3))))"

text \<open>
  \<^verbatim>\<open>ft60_upload\<close>: the blocks behind the first, the checksum stored behind the image,
  and the whole procedure. A failed block leads back to \<^verbatim>\<open>again\<close>, where the operator is
  asked to press Enter; the retries take fuel.
\<close>

function ft60_write_rest :: "nat \<Rightarrow> radio \<Rightarrow> int \<times> radio" where
  "ft60_write_rest addr s =
     (if addr < ft60_MEMSZ
      then case ft60_write_block addr addr 64 s of
             (r, s1) \<Rightarrow> if r = 0 then (0, s1) else ft60_write_rest (addr + 64) s1
      else (1, s))"
  by pat_completeness auto
termination
  by (relation "measure (\<lambda>(addr, s). ft60_MEMSZ - addr)") auto

definition ft60_upload_checksum :: "radio \<Rightarrow> radio" where
  "ft60_upload_checksum s =
     s\<lparr>radio_mem := (radio_mem s) (ft60_MEMSZ := word_of_int (checksum (radio_mem s) ft60_MEMSZ))\<rparr>"

fun ft60_upload :: "nat \<Rightarrow> radio \<Rightarrow> radio option" where
  "ft60_upload 0 s = None"
| "ft60_upload (Suc k) s =
     (case ft60_write_block 0 0 8 (s\<lparr>radio_port := serial_flush (radio_port s)\<rparr>) of
        (r1, s1) \<Rightarrow>
          if r1 = 0 then ft60_upload k s1
          else case ft60_write_rest 8 s1 of
            (r2, s2) \<Rightarrow>
              if r2 = 0 then ft60_upload k s2
              else case ft60_write_block ft60_MEMSZ ft60_MEMSZ 1 (ft60_upload_checksum s2) of
                (r3, s3) \<Rightarrow> if r3 = 0 then ft60_upload k s3 else Some s3)"

text \<open>\<^verbatim>\<open>ft60_is_compatible\<close>: the truth value of \<^verbatim>\<open>strncmp("AH017$", radio_mem, 6) == 0\<close>.\<close>

definition ft60_is_compatible :: "mem \<Rightarrow> bool" where
  "ft60_is_compatible m = (strncmp (cstr ''AH017$'') m 6 = 0)"

section \<open>VX-2: clone transfer\<close>

text \<open>The exchange of the acknowledge byte in \<^verbatim>\<open>read_block\<close> of vx-2.c.\<close>

definition vx2_read_ack :: "nat \<Rightarrow> serial \<Rightarrow> diag + serial" where
  "vx2_read_ack start p =
     (let (reply, p3) = serial_read 1 (serial_write [0x06] p)
      in if length reply \<noteq> 1 then Inl (No_Acknowledge start)
         else if hd reply \<noteq> 0x06 then Inl (Bad_Acknowledge start (hd reply))
         else Inr p3)"

text \<open>
  \<^verbatim>\<open>read_block(fd, start, data, datalen)\<close> of vx-2.c reads chunks of at most 64 bytes.
  \<open>vx2_read_chunks\<close> is the code from the label \<^verbatim>\<open>again\<close> on, with the variables that
  the jump back changes as arguments; \<^verbatim>\<open>need_ack\<close> is computed once, from the length of
  the whole block.
\<close>

function vx2_read_chunks :: "bool \<Rightarrow> nat \<Rightarrow> nat \<Rightarrow> nat \<Rightarrow> radio \<Rightarrow> diag + (int \<times> radio)" where
  "vx2_read_chunks need_ack start data datalen s =
     (let nbytes = (if datalen < 64 then datalen else 64);
          (got, p1) = serial_read nbytes (radio_port s);
          s1 = s\<lparr>radio_mem := store_bytes (radio_mem s) data got, radio_port := p1\<rparr>
      in if length got \<noteq> nbytes
         then (if start = 0 then Inr (0, s1) else Inl (Short_Read start (length got)))
         else case (if need_ack then vx2_read_ack start p1 else Inr p1) of
                Inl e \<Rightarrow> Inl e
              | Inr p2 \<Rightarrow>
                  if nbytes < datalen
                  then vx2_read_chunks need_ack (start + nbytes) (data + nbytes) (datalen - nbytes)
                         (tick (s1\<lparr>radio_port := p2\<rparr>))
                  else Inr (1, tick (s1\<lparr>radio_port := p2\<rparr>)))"
  by pat_completeness auto
termination
  by (relation "measure (\<lambda>(need_ack, start, data, datalen, s). datalen)")
     (auto split: if_splits)

definition vx2_read_block :: "nat \<Rightarrow> nat \<Rightarrow> nat \<Rightarrow> radio \<Rightarrow> diag + (int \<times> radio)" where
  "vx2_read_block start data datalen s = vx2_read_chunks (datalen \<le> 16) start data datalen s"

text \<open>\<^verbatim>\<open>write_block\<close> of vx-2.c, in the same way; it returns 0 on an error.\<close>

definition vx2_write_ack :: "serial \<Rightarrow> bool \<times> serial" where
  "vx2_write_ack p =
     (let (reply, p3) = serial_read 1 p
      in (length reply = 1 \<and> hd reply = 0x06, p3))"

function vx2_write_chunks :: "bool \<Rightarrow> nat \<Rightarrow> nat \<Rightarrow> nat \<Rightarrow> radio \<Rightarrow> int \<times> radio" where
  "vx2_write_chunks need_ack start data datalen s =
     (let nbytes = (if datalen < 64 then datalen else 64);
          p1 = serial_write (map (radio_mem s) [data..<data + nbytes]) (radio_port s);
          (echo, p2) = serial_read nbytes p1
      in if length echo \<noteq> nbytes then (0, s\<lparr>radio_port := p2\<rparr>)
         else case (if need_ack then vx2_write_ack p2 else (True, p2)) of
                (ok, p3) \<Rightarrow>
                  if \<not> ok then (0, s\<lparr>radio_port := p3\<rparr>)
                  else if nbytes < datalen
                  then vx2_write_chunks need_ack (start + nbytes) (data + nbytes) (datalen - nbytes)
                         (tick (s\<lparr>radio_port := p3\<rparr>))
                  else (1, tick (s\<lparr>radio_port := p3\<rparr>)))"
  by pat_completeness auto
termination
  by (relation "measure (\<lambda>(need_ack, start, data, datalen, s). datalen)")
     (auto split: if_splits)

definition vx2_write_block :: "nat \<Rightarrow> nat \<Rightarrow> nat \<Rightarrow> radio \<Rightarrow> int \<times> radio" where
  "vx2_write_block start data datalen s = vx2_write_chunks (datalen \<le> 16) start data datalen s"

text \<open>
  \<^verbatim>\<open>vx2_download\<close>. Each of the two loops \<^verbatim>\<open>while (read_block(...) == 0) continue;\<close> and
  the jump back to \<^verbatim>\<open>again\<close> after a bad checksum take fuel.
\<close>

fun vx2_await_block :: "nat \<Rightarrow> nat \<Rightarrow> nat \<Rightarrow> radio \<Rightarrow> (diag + radio) option" where
  "vx2_await_block 0 start datalen s = None"
| "vx2_await_block (Suc k) start datalen s =
     (case vx2_read_block start start datalen s of
        Inl e \<Rightarrow> Some (Inl e)
      | Inr (r, s1) \<Rightarrow> if r = 0 then vx2_await_block k start datalen s1 else Some (Inr s1))"

fun vx2_download :: "nat \<Rightarrow> radio \<Rightarrow> (diag + radio) option" where
  "vx2_download 0 s = None"
| "vx2_download (Suc k) s =
     (case vx2_await_block (Suc k) 0 10 s of
        None \<Rightarrow> None
      | Some (Inl e) \<Rightarrow> Some (Inl e)
      | Some (Inr s1) \<Rightarrow>
          (case vx2_await_block (Suc k) 10 8 s1 of
             None \<Rightarrow> None
           | Some (Inl e) \<Rightarrow> Some (Inl e)
           | Some (Inr s2) \<Rightarrow>
               (case vx2_read_block 18 18 (vx2_MEMSZ - 18 + 1) s2 of
                  Inl e \<Rightarrow> Some (Inl e)
                | Inr (r, s3) \<Rightarrow>
                    if checksum (radio_mem s3) vx2_MEMSZ AND 0xff \<noteq> uint (radio_mem s3 vx2_MEMSZ)
                    then vx2_download k s3
                    else Some (Inr s3))))"

text \<open>\<^verbatim>\<open>vx2_upload\<close>: the checksum is stored before the last block is sent.\<close>

definition vx2_upload_checksum :: "radio \<Rightarrow> radio" where
  "vx2_upload_checksum s =
     s\<lparr>radio_mem := (radio_mem s) (vx2_MEMSZ := word_of_int (checksum (radio_mem s) vx2_MEMSZ))\<rparr>"

fun vx2_upload :: "nat \<Rightarrow> radio \<Rightarrow> radio option" where
  "vx2_upload 0 s = None"
| "vx2_upload (Suc k) s =
     (case vx2_write_block 0 0 10
             (s\<lparr>radio_port := serial_flush (serial_flush (radio_port s))\<rparr>) of
        (r1, s1) \<Rightarrow>
          if r1 = 0 then vx2_upload k s1
          else case vx2_write_block 10 10 8 s1 of
            (r2, s2) \<Rightarrow>
              if r2 = 0 then vx2_upload k s2
              else case vx2_write_block 18 18 (vx2_MEMSZ - 18 + 1) (vx2_upload_checksum s2) of
                (r3, s3) \<Rightarrow> if r3 = 0 then vx2_upload k s3 else Some s3)"

text \<open>\<^verbatim>\<open>vx2_is_compatible\<close>.\<close>

definition vx2_is_compatible :: "mem \<Rightarrow> bool" where
  "vx2_is_compatible m = (strncmp (cstr ''AH015$'') m 6 = 0)"

section \<open>VX-2: channel records\<close>

definition vx2_CHARSET :: string where
  "vx2_CHARSET = ''0123456789ABCDEFGHIJKLMNOPQRSTUVWXYZ +-/[]''"

definition vx2_NCHARS :: nat where "vx2_NCHARS = 42"
definition vx2_SPACE :: nat where "vx2_SPACE = 36"

definition vx2_FLAG_UNMASKED :: int where "vx2_FLAG_UNMASKED = 1"
definition vx2_FLAG_VALID :: int where "vx2_FLAG_VALID = 2"
definition vx2_FLAG_SKIP :: int where "vx2_FLAG_SKIP = 4"
definition vx2_FLAG_PSKIP :: int where "vx2_FLAG_PSKIP = 8"

definition vx2_SCAN_NORMAL :: int where "vx2_SCAN_NORMAL = 0"
definition vx2_SCAN_SKIP :: int where "vx2_SCAN_SKIP = 1"
definition vx2_SCAN_PREFERENTIAL :: int where "vx2_SCAN_PREFERENTIAL = 2"

definition vx2_D_SIMPLEX :: int where "vx2_D_SIMPLEX = 0"
definition vx2_D_NEG_OFFSET :: int where "vx2_D_NEG_OFFSET = 1"
definition vx2_D_POS_OFFSET :: int where "vx2_D_POS_OFFSET = 2"
definition vx2_D_DUPLEX :: int where "vx2_D_DUPLEX = 3"

definition vx2_MOD_FM :: int where "vx2_MOD_FM = 0"
definition vx2_MOD_AM :: int where "vx2_MOD_AM = 1"
definition vx2_MOD_WFM :: int where "vx2_MOD_WFM = 2"
definition vx2_MOD_AUTO :: int where "vx2_MOD_AUTO = 3"
definition vx2_MOD_NFM :: int where "vx2_MOD_NFM = 4"

definition vx2_T_OFF :: int where "vx2_T_OFF = 0"
definition vx2_T_TONE :: int where "vx2_T_TONE = 1"
definition vx2_T_TSQL :: int where "vx2_T_TSQL = 2"
definition vx2_T_DTCS :: int where "vx2_T_DTCS = 3"

definition vx2_PWR_HIGH :: int where "vx2_PWR_HIGH = 0"
definition vx2_PWR_LOW :: int where "vx2_PWR_LOW = 3"
definition vx2_TONE_DEFAULT :: int where "vx2_TONE_DEFAULT = 12"
definition vx2_STEP_12_5 :: int where "vx2_STEP_12_5 = 2"

text \<open>
  \<^verbatim>\<open>memory_channel_t\<close> of vx-2.c, 18 bytes at \<open>seek + 18 * i\<close>. Byte 0: _u1 (bits 0-3),
  clk (4), isnarrow (5), _u2 (6-7). Byte 1: step (0-3), duplex (4-5), amfm (6-7).
  Bytes 2-4: rxfreq. Byte 5: tmode (0-1), _u3 (2-5), power (6-7). Bytes 6-11: name.
  Bytes 12-14: offset. Byte 15: tone (0-5), _u4 (6-7). Byte 16: dcs (0-6), _u5 (7).
  Byte 17: _u6.
\<close>

record vx2_channel = channel +
  amfm :: int

text \<open>
  \<^verbatim>\<open>get_flags\<close> and \<^verbatim>\<open>set_flags\<close>: four bits for each channel, two channels in a byte.
\<close>

definition vx2_get_flags :: "mem \<Rightarrow> nat \<Rightarrow> int" where
  "vx2_get_flags m i =
     (let flags = uint (m (vx2_OFFSET_FLAGS + i div 2))
      in (if i AND 1 \<noteq> 0 then drop_bit 4 flags else flags) AND 0xf)"

definition vx2_set_flags :: "nat \<Rightarrow> int \<Rightarrow> mem \<Rightarrow> mem" where
  "vx2_set_flags i flags =
     (let ptr = vx2_OFFSET_FLAGS + i div 2;
          shift = (i AND 1) * 4
      in assignments
          [update_byte ptr (\<lambda>v. v AND NOT (push_bit shift 0xf)),
           update_byte ptr (\<lambda>v. v OR push_bit shift flags)])"

text \<open>\<^verbatim>\<open>decode_name(internal, name)\<close> of vx-2.c; \<open>internal\<close> is an address.\<close>

definition vx2_decode_name :: "mem \<Rightarrow> nat \<Rightarrow> string \<Rightarrow> string" where
  "vx2_decode_name m internal buf =
     (if unat (m internal AND 0x7f) < vx2_NCHARS
      then let cs = map (\<lambda>n. let c = unat (m (internal + n) AND 0x7f);
                                ch = (if c < vx2_NCHARS then vx2_CHARSET ! c else CHR '' '')
                            in if ch = CHR '' '' then CHR ''_'' else ch) [0..<6]
           in rev (dropWhile (\<lambda>c. c = CHR ''_'') (rev cs))
      else buf)"

text \<open>\<^verbatim>\<open>decode_channel\<close> of vx-2.c.\<close>

definition vx2_decode_channel :: "env \<Rightarrow> mem \<Rightarrow> nat \<Rightarrow> nat \<Rightarrow> string option \<Rightarrow> vx2_channel" where
  "vx2_decode_channel E m i seek nm =
     (let ch = seek + 18 * i;
          flags = vx2_get_flags m (i + (if seek = vx2_OFFSET_PMS then vx2_NCHAN else 0));
          cleared = \<lparr>name = map_option (\<lambda>_. []) nm, rx_hz = 0, tx_hz = 0, rx_ctcs = 0, tx_ctcs = 0,
                     rx_dcs = 0, tx_dcs = 0, power = 0, scan = 0, step = 0, amfm = 0\<rparr>
      in if (seek = vx2_OFFSET_CHANNELS \<or> seek = vx2_OFFSET_PMS) \<and> flags AND vx2_FLAG_VALID = 0
         then cleared
         else
           let name1 = (if nm \<noteq> None \<and> seek = vx2_OFFSET_CHANNELS
                        then Some (vx2_decode_name m (ch + 6) []) else map_option (\<lambda>_. []) nm);
               rx = vx2_freq_to_hz m (ch + 2);
               duplex = get_bits (m (ch + 1)) 4 2;
               tx = (if duplex = vx2_D_NEG_OFFSET then rx - vx2_freq_to_hz m (ch + 12)
                     else if duplex = vx2_D_POS_OFFSET then rx + vx2_freq_to_hz m (ch + 12)
                     else if duplex = vx2_D_DUPLEX then vx2_freq_to_hz m (ch + 12)
                     else rx);
               tmode = get_bits (m (ch + 5)) 0 2;
               tone = CTCSS_TONES E (nat (get_bits (m (ch + 15)) 0 6));
               dcs = DCS_CODES E (nat (get_bits (m (ch + 16)) 0 7))
           in \<lparr>name = name1, rx_hz = rx, tx_hz = tx,
               rx_ctcs = (if tmode = vx2_T_TSQL then tone else 0),
               tx_ctcs = (if tmode = vx2_T_TONE \<or> tmode = vx2_T_TSQL then tone else 0),
               rx_dcs = (if tmode = vx2_T_DTCS then dcs else 0),
               tx_dcs = (if tmode = vx2_T_DTCS then dcs else 0),
               power = get_bits (m (ch + 5)) 6 2,
               scan = (if flags AND vx2_FLAG_PSKIP \<noteq> 0 then vx2_SCAN_PREFERENTIAL
                       else if flags AND vx2_FLAG_SKIP \<noteq> 0 then vx2_SCAN_SKIP
                       else vx2_SCAN_NORMAL),
               step = get_bits (m (ch + 1)) 0 4,
               amfm = (if get_bits (m ch) 5 1 \<noteq> 0 then vx2_MOD_NFM
                       else get_bits (m (ch + 1)) 6 2)\<rparr>)"

text \<open>\<^verbatim>\<open>iround\<close>, \<^verbatim>\<open>encode_char\<close> and \<^verbatim>\<open>encode_name(internal, name)\<close> of vx-2.c.\<close>

definition iround :: "real \<Rightarrow> int" where
  "iround x = (if 0 \<le> x then trunc (x + 0.5) else - trunc (- x + 0.5))"

definition vx2_encode_char :: "char \<Rightarrow> nat" where
  "vx2_encode_char c0 =
     (let c1 = (if c0 = CHR ''_'' then CHR '' '' else c0);
          c = (if 97 \<le> (of_char c1 :: nat) \<and> (of_char c1 :: nat) \<le> 122
               then char_of ((of_char c1 :: nat) - 32) else c1)
      in case find (\<lambda>i. c = vx2_CHARSET ! i) [0..<vx2_NCHARS] of
           Some i \<Rightarrow> i | None \<Rightarrow> vx2_SPACE)"

definition vx2_encode_name :: "nat \<Rightarrow> string option \<Rightarrow> mem \<Rightarrow> mem" where
  "vx2_encode_name internal nm m =
     (let s0 = (case nm of None \<Rightarrow> [] | Some s \<Rightarrow> s);
          s = (if nm = None \<or> s0 = [] \<or> hd s0 = CHR ''-'' then ''      '' else s0);
          m = store_bytes m internal
                (map (\<lambda>n. if n < length s then word_of_nat (vx2_encode_char (s ! n))
                           else word_of_nat vx2_SPACE) [0..<6])
      in if m internal \<noteq> word_of_nat vx2_SPACE
         then m (internal := m internal OR 0x80) else m)"

text \<open>\<^verbatim>\<open>setup_channel\<close> of vx-2.c, the assignments in the order of the source.\<close>

definition vx2_setup_channel ::
  "nat \<Rightarrow> string option \<Rightarrow> real \<Rightarrow> real \<Rightarrow> int \<Rightarrow> int \<Rightarrow> int \<Rightarrow> int \<Rightarrow> int \<Rightarrow> int \<Rightarrow> mem \<Rightarrow> mem" where
  "vx2_setup_channel i nm rx_mhz tx_mhz tmode tone dcs pwr scn am =
     (let ch = vx2_OFFSET_CHANNELS + 18 * i;
          flags = vx2_FLAG_VALID OR vx2_FLAG_UNMASKED;
          offset_khz = iround ((tx_mhz - rx_mhz) * 1000)
      in assignments
          [vx2_hz_to_freq (iround (rx_mhz * 1000000)) (ch + 2),
           (\<lambda>m. m (ch + 12 := 0, ch + 13 := 0, ch + 14 := 0)),
           (if offset_khz = 0 then assignments [set_field (ch + 1) 4 2 vx2_D_SIMPLEX]
            else if 0 < offset_khz \<and> offset_khz < 100000
            then assignments
                   [set_field (ch + 1) 4 2 vx2_D_POS_OFFSET,
                    vx2_hz_to_freq (offset_khz * 1000) (ch + 12)]
            else if offset_khz < 0 \<and> - offset_khz < 100000
            then assignments
                   [set_field (ch + 1) 4 2 vx2_D_NEG_OFFSET,
                    vx2_hz_to_freq (- offset_khz * 1000) (ch + 12)]
            else assignments
                   [set_field (ch + 1) 4 2 vx2_D_DUPLEX,
                    vx2_hz_to_freq (iround (tx_mhz * 1000000)) (ch + 12)]),
           set_field (ch + 5) 0 2 tmode,
           set_field (ch + 15) 0 6 tone,
           set_field (ch + 16) 0 7 dcs,
           set_field (ch + 5) 6 2 pwr,
           set_field ch 5 1 (if am = vx2_MOD_NFM then 1 else 0),
           set_field (ch + 1) 6 2 am,
           set_field (ch + 1) 0 4 vx2_STEP_12_5,
           set_field ch 4 1 0,
           set_field ch 0 4 (if rx_mhz < 1.8 then 2 else if rx_mhz < 88 then 0 else 5),
           set_field ch 6 2 0,
           set_field (ch + 5) 2 4 0,
           set_field (ch + 15) 6 2 0,
           set_field (ch + 16) 7 1 0,
           (\<lambda>m. m (ch + 17 := 0)),
           vx2_encode_name (ch + 6) nm,
           vx2_set_flags i
             (if scn = vx2_SCAN_SKIP then flags OR vx2_FLAG_SKIP
              else if scn = vx2_SCAN_PREFERENTIAL then flags OR vx2_FLAG_PSKIP
              else flags)])"

section \<open>VX-2: parsing a row of the channel table\<close>

definition vx2_encode_tone :: "env \<Rightarrow> string \<Rightarrow> int" where
  "vx2_encode_tone E str =
     (case scan_double E str of None \<Rightarrow> - 1
      | Some hz \<Rightarrow>
          let val = iround (hz * 10)
          in if val < 0x0258 then - 1 else table_index (CTCSS_TONES E) (NCTCSS E) val)"

definition vx2_encode_dcs :: "env \<Rightarrow> string \<Rightarrow> int" where
  "vx2_encode_dcs E str =
     (case scan_u (tl str) of None \<Rightarrow> - 1
      | Some val \<Rightarrow> table_index (DCS_CODES E) (NDCS E) (int val))"

text \<open>\<^verbatim>\<open>encode_squelch\<close> of vx-2.c; the result is \<open>(tmode, tone, dcs)\<close>.\<close>

definition vx2_encode_squelch :: "env \<Rightarrow> string \<Rightarrow> string \<Rightarrow> int \<times> int \<times> int" where
  "vx2_encode_squelch E rx tx =
     (let tx_is_dcs = (cchar tx 0 = CHR ''D'' \<or> cchar tx 0 = CHR ''d'');
          tx_dcs = (if tx_is_dcs then vx2_encode_dcs E tx else - 1);
          tx_tone = (if \<not> tx_is_dcs \<and> isdigit (cchar tx 0) then vx2_encode_tone E tx else - 1);
          rx_tone = (if isdigit (cchar rx 0) then vx2_encode_tone E rx else - 1)
      in if 0 \<le> tx_dcs then (vx2_T_DTCS, vx2_TONE_DEFAULT, tx_dcs)
         else if 0 \<le> tx_tone
         then (if rx_tone < 0 then (vx2_T_TONE, tx_tone, 0) else (vx2_T_TSQL, tx_tone, 0))
         else (vx2_T_OFF, vx2_TONE_DEFAULT, 0))"

definition vx2_is_valid_frequency :: "real \<Rightarrow> bool" where
  "vx2_is_valid_frequency mhz = (0.5 \<le> mhz \<and> mhz \<le> 999)"

definition vx2_parse_power :: "string \<Rightarrow> int option" where
  "vx2_parse_power power_str =
     (if strcasecmp ''High'' power_str = 0 then Some vx2_PWR_HIGH
      else if strcasecmp ''Low'' power_str = 0 \<or> strcasecmp ''-'' power_str = 0 then Some vx2_PWR_LOW
      else None)"

definition vx2_parse_mod :: "string \<Rightarrow> int option" where
  "vx2_parse_mod mod_str =
     (if strcasecmp ''FM'' mod_str = 0 then Some vx2_MOD_FM
      else if strcasecmp ''AM'' mod_str = 0 then Some vx2_MOD_AM
      else if strcasecmp ''WFM'' mod_str = 0 then Some vx2_MOD_WFM
      else if strcasecmp ''NFM'' mod_str = 0 then Some vx2_MOD_NFM
      else if strcasecmp ''Auto'' mod_str = 0 then Some vx2_MOD_AUTO
      else None)"

text \<open>
  \<^verbatim>\<open>parse_channel(first_row, line)\<close> of vx-2.c: the returned value and the image
  afterwards. The messages on \<^verbatim>\<open>stderr\<close> are not modelled.
\<close>

definition vx2_parse_channel :: "env \<Rightarrow> bool \<Rightarrow> string \<Rightarrow> mem \<Rightarrow> int \<times> mem" where
  "vx2_parse_channel E first_row line m =
     (let f = sscanf_s 9 line
      in if length f \<noteq> 9 then (0, m)
         else
           let num_str = f ! 0; name_str = f ! 1; rxfreq_str = f ! 2; offset_str = f ! 3;
               rq_str = f ! 4; tq_str = f ! 5; power_str = f ! 6; mod_str = f ! 7;
               scan_str = f ! 8;
               num = atoi num_str
           in if num < 1 \<or> num > int vx2_NCHAN then (0, m)
              else case scan_double E rxfreq_str of None \<Rightarrow> (0, m)
              | Some rx_mhz \<Rightarrow>
                if \<not> vx2_is_valid_frequency rx_mhz then (0, m)
                else case (if cchar offset_str 0 = CHR ''-'' \<and> cchar offset_str 1 = CHR 0x00
                           then Some rx_mhz
                           else case scan_double E offset_str of None \<Rightarrow> None
                                | Some tx0 \<Rightarrow>
                                    let tx1 = (if cchar offset_str 0 = CHR ''-''
                                                  \<or> cchar offset_str 0 = CHR ''+''
                                               then tx0 + rx_mhz else tx0)
                                    in if vx2_is_valid_frequency tx1 then Some tx1 else None) of
                  None \<Rightarrow> (0, m)
                | Some tx_mhz \<Rightarrow>
                  let (tmode, tone, dcs) = vx2_encode_squelch E rq_str tq_str
                  in case vx2_parse_power power_str of None \<Rightarrow> (0, m)
                     | Some pwr \<Rightarrow>
                       (case vx2_parse_mod mod_str of None \<Rightarrow> (0, m)
                        | Some am \<Rightarrow>
                          (case parse_scan scan_str of None \<Rightarrow> (0, m)
                           | Some scn \<Rightarrow>
                             let m1 = (if first_row
                                       then memset (memset m vx2_OFFSET_CHANNELS 0xff (vx2_NCHAN * 18))
                                              vx2_OFFSET_FLAGS 0 (vx2_NCHAN div 2)
                                       else m)
                             in (1, vx2_setup_channel (nat (num - 1)) (Some name_str)
                                     rx_mhz tx_mhz tmode tone dcs pwr scn am m1))))"

section \<open>VX-2: banks\<close>

text \<open>
  A bank is a list of up to 100 channel numbers (counted from 0) of 16 bits each at
  \<open>OFFSET_BANKS + bank * 200\<close>, free slots holding \<open>0xffff\<close>, and the number of its
  channels less one at \<open>OFFSET_BNCHAN + bank * 2\<close>. The 16-bit values lie in the image
  with the high byte first: \<^verbatim>\<open>big_endian_16\<close> swaps the bytes on a little-endian host
  and does nothing on a big-endian one, so a load through it reads \<open>read_be16\<close> and a
  store of its result writes \<open>write_be16\<close> on either host.
\<close>

definition read_be16 :: "mem \<Rightarrow> nat \<Rightarrow> int" where
  "read_be16 m a = uint (m a) * 256 + uint (m (a + 1))"

definition write_be16 :: "nat \<Rightarrow> int \<Rightarrow> mem \<Rightarrow> mem" where
  "write_be16 a v m = m (a := word_of_int (drop_bit 8 v), a + 1 := word_of_int v)"

text \<open>\<^verbatim>\<open>setup_bank\<close> of vx-2.c: the first free slot, or the exit of the program.\<close>

definition vx2_setup_bank :: "nat \<Rightarrow> nat \<Rightarrow> mem \<Rightarrow> diag + mem" where
  "vx2_setup_bank bank_index chan_index m =
     (let data = vx2_OFFSET_BANKS + bank_index * 200
      in case find (\<lambda>n. read_be16 m (data + 2 * n) = 0xffff) [0..<100] of
           Some n \<Rightarrow> Inr (write_be16 (data + 2 * n) (int chan_index) m)
         | None \<Rightarrow> Inl (Too_Many_Channels (bank_index + 1)))"

text \<open>\<^verbatim>\<open>print_bank(out, i)\<close> of vx-2.c; a bank with a count of 100 or more prints nothing.\<close>

function vx2_print_bank_loop ::
  "mem \<Rightarrow> nat \<Rightarrow> int \<Rightarrow> nat \<Rightarrow> string \<times> int \<times> bool \<Rightarrow> string \<times> int \<times> bool" where
  "vx2_print_bank_loop m data nchan n (out, lst, rng) =
     (if int n \<le> nchan
      then let cnum = 1 + read_be16 m (data + 2 * n)
           in if cnum = lst + 1
              then vx2_print_bank_loop m data nchan (n + 1) (out, cnum, True)
              else let out1 = (if rng then out @ ''-'' @ show_int lst else out);
                       out2 = (if 0 < n then out1 @ '','' else out1)
                   in vx2_print_bank_loop m data nchan (n + 1) (out2 @ show_int cnum, cnum, False)
      else (out, lst, rng))"
  by pat_completeness auto
termination
  by (relation "measure (\<lambda>(m, data, nchan, n, st). nat (nchan + 1) - n)") auto

definition vx2_print_bank :: "mem \<Rightarrow> nat \<Rightarrow> string" where
  "vx2_print_bank m i =
     (let nchan = read_be16 m (vx2_OFFSET_BNCHAN + i * 2);
          data = vx2_OFFSET_BANKS + i * 200
      in if nchan < 100
         then let (out, lst, rng) =
                    vx2_print_bank_loop m data nchan 0 (show_int4 (int i + 1) @ ''    '', - 1, False)
              in (if rng then out @ ''-'' @ show_int lst else out) @ [CHR 0x0A]
         else [])"

text \<open>The loop \<^verbatim>\<open>for (c=last; c<cnum; c++) { setup_bank(bnum-1, c); nchan++; }\<close>.\<close>

fun vx2_add_range :: "nat \<Rightarrow> nat list \<Rightarrow> mem \<Rightarrow> diag + mem" where
  "vx2_add_range bank [] m = Inr m"
| "vx2_add_range bank (c # cs) m =
     (case vx2_setup_bank bank c m of Inl e \<Rightarrow> Inl e | Inr m1 \<Rightarrow> vx2_add_range bank cs m1)"

text \<open>
  The loop over the channel list of \<^verbatim>\<open>parse_banks\<close> in vx-2.c. \<open>Inl\<close> is the exit of
  the program in \<^verbatim>\<open>setup_bank\<close>; otherwise the result says whether the loop was left by
  \<^verbatim>\<open>break\<close> (\<open>True\<close>) or by \<^verbatim>\<open>return 0\<close> (\<open>False\<close>), and gives \<^verbatim>\<open>nchan\<close> and the image.
\<close>

function vx2_parse_chan_list ::
  "nat \<Rightarrow> string \<Rightarrow> bool \<Rightarrow> int \<Rightarrow> int \<Rightarrow> mem \<Rightarrow> diag + (bool \<times> int \<times> mem)" where
  "vx2_parse_chan_list bank str rng lst nchan m =
     (let eptr = snd (strtoul str);
          cnum = int_of_unsigned (fst (strtoul str))
      in if length eptr = length str then Inr (False, nchan, m)
         else if cnum < 1 \<or> cnum > int vx2_NCHAN then Inr (False, nchan, m)
         else case (if rng then vx2_add_range bank [nat lst..<nat cnum] m
                    else vx2_setup_bank bank (nat (cnum - 1)) m) of
                Inl e \<Rightarrow> Inl e
              | Inr m1 \<Rightarrow>
                  let nchan1 = (if rng then nchan + int (length [nat lst..<nat cnum]) else nchan + 1)
                  in if eptr = [] then Inr (True, nchan1, m1)
                     else if hd eptr \<noteq> CHR '','' \<and> hd eptr \<noteq> CHR ''-'' then Inr (False, nchan1, m1)
                     else vx2_parse_chan_list bank (tl eptr) (hd eptr = CHR ''-'') cnum nchan1 m1)"
  by pat_completeness auto
termination
proof (relation "measure (\<lambda>(bank, str, rng, lst, nchan, m). length str)", goal_cases)
  case 1
  show ?case by simp
next
  case (2 bank str rng lst nchan m eptr cnum m1 nchan1)
  have "length (tl eptr) < length eptr" using 2 by (cases eptr) simp_all
  moreover have "length eptr \<le> length str" using 2 strtoul_length [of str] by simp
  ultimately show ?case by simp
qed

text \<open>\<^verbatim>\<open>parse_banks(first_row, line)\<close> of vx-2.c.\<close>

definition vx2_parse_banks :: "bool \<Rightarrow> string \<Rightarrow> mem \<Rightarrow> diag + (int \<times> mem)" where
  "vx2_parse_banks first_row line m =
     (let f = sscanf_s 2 line
      in if length f \<noteq> 2 then Inr (0, m)
         else
           let bnum = atoi (f ! 0); chan_str = f ! 1
           in if bnum < 1 \<or> bnum > int vx2_NBANKS then Inr (0, m)
              else
                let m1 = (if first_row
                          then memset (memset (memset (memset m
                                   vx2_OFFSET_BANKS 0xff (vx2_NBANKS * 200))
                                   vx2_OFFSET_BNCHAN 0xff (vx2_NBANKS * 2))
                                   vx2_OFFSET_BUSE1 0xff 2)
                                   vx2_OFFSET_BUSE2 0xff 2
                          else m)
                in if cchar chan_str 0 = CHR ''-'' then Inr (1, m1)
                   else case vx2_parse_chan_list (nat (bnum - 1)) chan_str False 0 0 m1 of
                          Inl e \<Rightarrow> Inl e
                        | Inr (ok, nchan, m2) \<Rightarrow>
                            if \<not> ok then Inr (0, m2)
                            else
                              let m3 = write_be16 (vx2_OFFSET_BNCHAN + nat (bnum - 1) * 2) (nchan - 1) m2
                              in Inr (1, if 0 < nchan
                                         then memset (memset m3 vx2_OFFSET_BUSE1 0 2) vx2_OFFSET_BUSE2 0 2
                                         else m3))"

section \<open>Bytes, nibbles and decimal digits\<close>

lemma sdiv_nonneg: "0 \<le> a \<Longrightarrow> 0 < b \<Longrightarrow> a sdiv b = (a::int) div b"
  by (cases "a = 0") (simp_all add: signed_divide_int_def)

lemma smod_nonneg: "0 \<le> a \<Longrightarrow> 0 < b \<Longrightarrow> a smod b = (a::int) mod b"
  by (simp add: smod_mod_positive)

lemma int_and_15: "(k::int) AND 15 = k mod 16"
proof -
  have "k AND mask 4 = take_bit 4 k" by (simp add: take_bit_eq_mask)
  also have "\<dots> = k mod 16" by (simp add: take_bit_eq_mod)
  finally show ?thesis by (simp add: mask_eq_exp_minus_1)
qed

lemma uint_lo_nibble: "uint ((w :: byte) AND 15) = uint w mod 16"
  by (simp add: unsigned_and_eq int_and_15)

lemma uint_shr4: "uint (drop_bit 4 (w :: byte)) = uint w div 16"
  by (simp add: uint_div_distrib drop_bit_eq_div)

lemma uint_shr6: "uint (drop_bit 6 (w :: byte)) = uint w div 64"
  by (simp add: uint_div_distrib drop_bit_eq_div)

lemma uint_hi_nibble: "uint (drop_bit 4 (w :: byte) AND 15) = uint w div 16 mod 16"
  by (simp only: uint_lo_nibble uint_shr4)

lemma uint_byte_of_int: "0 \<le> k \<Longrightarrow> k < 256 \<Longrightarrow> uint (word_of_int k :: byte) = k"
  by (simp add: uint_word_of_int)

lemma or_low_bits:
  fixes a d :: int
  assumes "0 \<le> d" "d < 2 ^ n"
  shows "push_bit n a OR d = 2 ^ n * a + d"
proof -
  have t: "take_bit n d = d" using assms by (simp add: take_bit_int_eq_self)
  then have "push_bit n a OR d = concat_bit n d a"
    by (simp add: concat_bit_def or.commute)
  also have "\<dots> = take_bit n d + push_bit n a" by (simp add: concat_bit_eq)
  finally show ?thesis using t by (simp add: push_bit_eq_mult)
qed

text \<open>Two decimal digits packed into one byte, and read back.\<close>

lemma bcd_byte:
  fixes a d :: int
  assumes "0 \<le> a" "a < 10" "0 \<le> d" "d < 10"
  shows "uint (word_of_int (push_bit 4 a OR d) :: byte) = 16 * a + d"
proof -
  have "push_bit 4 a OR d = 2 ^ 4 * a + d" using assms by (intro or_low_bits) simp_all
  then have e: "push_bit 4 a OR d = 16 * a + d" by simp
  have "0 \<le> 16 * a + d" "16 * a + d < 256" using assms by simp_all
  then show ?thesis unfolding e by (rule uint_byte_of_int)
qed

lemma mod_split10: "(x::int) mod (m * 10) = m * (x div m mod 10) + x mod m"
  by (rule zmod_zmult2_eq) simp


lemma ft60_digits:
  fixes hz :: int
  assumes "0 \<le> hz" "hz < 1000000000" "hz mod 2500 = 0"
  shows "(hz div 100000000 mod 10) * 100000000 + (hz div 10000000 mod 10) * 10000000
       + (hz div 1000000 mod 10) * 1000000 + (hz div 100000 mod 10) * 100000
       + (hz div 10000 mod 10) * 10000 + (hz div 2500 mod 4) * 2500 = hz"
proof -
  define d8 d7 d6 d5 d4 q where
    d: "d8 = hz div 100000000 mod 10" "d7 = hz div 10000000 mod 10" "d6 = hz div 1000000 mod 10"
       "d5 = hz div 100000 mod 10" "d4 = hz div 10000 mod 10" "q = hz div 2500 mod 4"
  define r8 r7 r6 r5 r4 where
    r: "r8 = hz mod 100000000" "r7 = hz mod 10000000" "r6 = hz mod 1000000"
       "r5 = hz mod 100000" "r4 = hz mod 10000"
  have "hz = 100000000 * d8 + r8"
    using mod_split10 [of hz 100000000] assms by (simp add: d r)
  moreover have "r8 = 10000000 * d7 + r7"
    using mod_split10 [of hz 10000000] by (simp add: d r)
  moreover have "r7 = 1000000 * d6 + r6"
    using mod_split10 [of hz 1000000] by (simp add: d r)
  moreover have "r6 = 100000 * d5 + r5"
    using mod_split10 [of hz 100000] by (simp add: d r)
  moreover have "r5 = 10000 * d4 + r4"
    using mod_split10 [of hz 10000] by (simp add: d r)
  moreover have "r4 = 2500 * q"
  proof -
    have "hz mod (2500 * 4) = 2500 * (hz div 2500 mod 4) + hz mod 2500"
      by (rule zmod_zmult2_eq) simp
    then show ?thesis using assms(3) by (simp add: d r)
  qed
  ultimately have "d8 * 100000000 + d7 * 10000000 + d6 * 1000000 + d5 * 100000 + d4 * 10000 + q * 2500 = hz"
    by (simp add: algebra_simps)
  then show ?thesis by (simp only: d)
qed

lemma ft60_byte0:
  fixes q d :: int
  assumes "0 \<le> q" "q < 4" "0 \<le> d" "d < 10"
  shows "uint (word_of_int (push_bit 6 q OR d) :: byte) = 64 * q + d"
proof -
  have "push_bit 6 q OR d = 2 ^ 6 * q + d" using assms by (intro or_low_bits) simp_all
  then have e: "push_bit 6 q OR d = 64 * q + d" by simp
  have "0 \<le> 64 * q + d" "64 * q + d < 256" using assms by simp_all
  then show ?thesis unfolding e by (rule uint_byte_of_int)
qed

lemma unpack16:
  fixes a d :: int
  assumes "0 \<le> a" "a < 10" "0 \<le> d" "d < 10"
  shows "(16 * a + d) mod 16 = d" "(16 * a + d) div 16 mod 16 = a" "(16 * a + d) div 16 = a"
  using assms by simp_all

lemma unpack64:
  fixes q d :: int
  assumes "0 \<le> q" "q < 4" "0 \<le> d" "d < 10"
  shows "(64 * q + d) mod 16 = d" "(64 * q + d) div 64 = q"
proof -
  have "(64 * q + d) mod 16 = (16 * (4 * q) + d) mod 16" by simp
  also have "\<dots> = d" using assms by (simp only: mod_mult_self4) simp
  finally show "(64 * q + d) mod 16 = d" .
  show "(64 * q + d) div 64 = q" using assms by simp
qed

lemma ft60_freq_roundtrip:
  assumes "0 \<le> hz" "hz < 1000000000" "hz mod 2500 = 0"
  shows "ft60_freq_to_hz (ft60_hz_to_freq hz bcd m) bcd = hz"
proof -
  define d8 d7 d6 d5 d4 q where
    d: "d8 = hz div 100000000 mod 10" "d7 = hz div 10000000 mod 10" "d6 = hz div 1000000 mod 10"
       "d5 = hz div 100000 mod 10" "d4 = hz div 10000 mod 10" "q = hz div 2500 mod 4"
  have rng: "0 \<le> d8" "d8 < 10" "0 \<le> d7" "d7 < 10" "0 \<le> d6" "d6 < 10"
       "0 \<le> d5" "d5 < 10" "0 \<le> d4" "d4 < 10" "0 \<le> q" "q < 4"
    by (simp_all add: d)
  have b0: "uint (word_of_int (push_bit 6 q OR d8) :: byte) = 64 * q + d8"
    using rng by (intro ft60_byte0)
  have b1: "uint (word_of_int (push_bit 4 d7 OR d6) :: byte) = 16 * d7 + d6"
    using rng by (intro bcd_byte)
  have b2: "uint (word_of_int (push_bit 4 d5 OR d4) :: byte) = 16 * d5 + d4"
    using rng by (intro bcd_byte)
  have enc: "ft60_hz_to_freq hz bcd m = m
     (bcd := word_of_int (push_bit 6 q OR d8),
      bcd + 1 := word_of_int (push_bit 4 d7 OR d6),
      bcd + 2 := word_of_int (push_bit 4 d5 OR d4))"
    using assms(1) by (simp add: ft60_hz_to_freq_def sdiv_nonneg smod_nonneg d)
  have "ft60_freq_to_hz (ft60_hz_to_freq hz bcd m) bcd =
        d8 * 100000000 + d7 * 10000000 + d6 * 1000000 + d5 * 100000 + d4 * 10000 + q * 2500"
    unfolding enc ft60_freq_to_hz_def using rng
    by (simp add: uint_lo_nibble uint_shr4 uint_shr6 b0 b1 b2 unpack16 unpack64)
  also have "\<dots> = hz" using ft60_digits [OF assms] by (simp only: d)
  finally show ?thesis .
qed

lemma digits6:
  fixes K :: int
  assumes "0 \<le> K" "K < 1000000"
  shows "(((((K div 100000 mod 10) * 10 + K div 10000 mod 10) * 10 + K div 1000 mod 10) * 10
            + K div 100 mod 10) * 10 + K div 10 mod 10) * 10 + K mod 10 = K"
proof -
  define d5 d4 d3 d2 d1 d0 where
    d: "d5 = K div 100000 mod 10" "d4 = K div 10000 mod 10" "d3 = K div 1000 mod 10"
       "d2 = K div 100 mod 10" "d1 = K div 10 mod 10" "d0 = K mod 10"
  define r5 r4 r3 r2 where r: "r5 = K mod 100000" "r4 = K mod 10000" "r3 = K mod 1000" "r2 = K mod 100"
  have "K = 100000 * d5 + r5"
    using mod_split10 [of K 100000] assms by (simp add: d r)
  moreover have "r5 = 10000 * d4 + r4"
    using mod_split10 [of K 10000] by (simp add: d r)
  moreover have "r4 = 1000 * d3 + r3"
    using mod_split10 [of K 1000] by (simp add: d r)
  moreover have "r3 = 100 * d2 + r2"
    using mod_split10 [of K 100] by (simp add: d r)
  moreover have "r2 = 10 * d1 + d0"
    using mod_split10 [of K 10] by (simp add: d r)
  ultimately have "((((d5 * 10 + d4) * 10 + d3) * 10 + d2) * 10 + d1) * 10 + d0 = K"
    by (simp add: algebra_simps)
  then show ?thesis by (simp only: d)
qed

lemma div_thousand: "(hz::int) div (1000 * c) = hz div 1000 div c" if "0 \<le> c"
  using that by (rule zdiv_zmult2_eq)

lemma vx2_freq_roundtrip:
  assumes "0 < hz" "hz < 1000000000"
    and "(hz mod 1000 = 0 \<and> hz div 1000 mod 10 \<noteq> 2 \<and> hz div 1000 mod 10 \<noteq> 7) \<or>
         (hz mod 1000 = 500 \<and> (hz div 1000 mod 10 = 2 \<or> hz div 1000 mod 10 = 7))"
  shows "vx2_freq_to_hz (vx2_hz_to_freq hz bcd m) bcd = hz"
proof -
  define K where "K = hz div 1000"
  define d5 d4 d3 d2 d1 d0 where
    d: "d5 = K div 100000 mod 10" "d4 = K div 10000 mod 10" "d3 = K div 1000 mod 10"
       "d2 = K div 100 mod 10" "d1 = K div 10 mod 10" "d0 = K mod 10"
  have K: "0 \<le> K" "K < 1000000" using assms(1,2) by (simp_all add: K_def)
  have rng: "0 \<le> d5" "d5 < 10" "0 \<le> d4" "d4 < 10" "0 \<le> d3" "d3 < 10"
       "0 \<le> d2" "d2 < 10" "0 \<le> d1" "d1 < 10" "0 \<le> d0" "d0 < 10"
    by (simp_all add: d)
  have dv: "hz div 100000000 = K div 100000" "hz div 10000000 = K div 10000"
       "hz div 1000000 = K div 1000" "hz div 100000 = K div 100" "hz div 10000 = K div 10"
    using div_thousand [of 100000 hz] div_thousand [of 10000 hz] div_thousand [of 1000 hz]
          div_thousand [of 100 hz] div_thousand [of 10 hz]
    by (simp_all add: K_def)
  have b0: "uint (word_of_int (push_bit 4 d5 OR d4) :: byte) = 16 * d5 + d4"
    using rng by (intro bcd_byte)
  have b1: "uint (word_of_int (push_bit 4 d3 OR d2) :: byte) = 16 * d3 + d2"
    using rng by (intro bcd_byte)
  have b2: "uint (word_of_int (push_bit 4 d1 OR d0) :: byte) = 16 * d1 + d0"
    using rng by (intro bcd_byte)
  have enc: "vx2_hz_to_freq hz bcd m = m
     (bcd := word_of_int (push_bit 4 d5 OR d4),
      bcd + 1 := word_of_int (push_bit 4 d3 OR d2),
      bcd + 2 := word_of_int (push_bit 4 d1 OR d0))"
    using assms(1) by (simp add: vx2_hz_to_freq_def sdiv_nonneg smod_nonneg dv d K_def)
  have dec: "vx2_freq_to_hz (vx2_hz_to_freq hz bcd m) bcd =
        (((((d5 * 10 + d4) * 10 + d3) * 10 + d2) * 10 + d1) * 10 + d0) * 1000
        + (if d0 = 2 \<or> d0 = 7 then 500 else 0)"
    unfolding enc vx2_freq_to_hz_def using rng
    by (simp add: Let_def uint_lo_nibble uint_shr4 b0 b1 b2 unpack16)
  have "(((((d5 * 10 + d4) * 10 + d3) * 10 + d2) * 10 + d1) * 10 + d0) = K"
    using digits6 [OF K] by (simp only: d)
  then have res: "vx2_freq_to_hz (vx2_hz_to_freq hz bcd m) bcd =
      K * 1000 + (if d0 = 2 \<or> d0 = 7 then 500 else 0)"
    using dec by simp
  have hzK: "hz = K * 1000 + r" if "hz mod 1000 = r" for r
    using that by (auto simp: K_def)
  have d0K: "d0 = hz div 1000 mod 10" by (simp add: d K_def)
  from assms(3) show ?thesis
  proof
    assume a: "hz mod 1000 = 0 \<and> hz div 1000 mod 10 \<noteq> 2 \<and> hz div 1000 mod 10 \<noteq> 7"
    then have "d0 \<noteq> 2" "d0 \<noteq> 7" by (simp_all add: d0K)
    with res have "vx2_freq_to_hz (vx2_hz_to_freq hz bcd m) bcd = K * 1000" by simp
    also have "\<dots> = hz" using hzK [of 0] a by simp
    finally show ?thesis .
  next
    assume a: "hz mod 1000 = 500 \<and> (hz div 1000 mod 10 = 2 \<or> hz div 1000 mod 10 = 7)"
    then have "d0 = 2 \<or> d0 = 7" by (simp add: d0K)
    with res have "vx2_freq_to_hz (vx2_hz_to_freq hz bcd m) bcd = K * 1000 + 500" by auto
    also have "\<dots> = hz" using hzK [of 500] a by simp
    finally show ?thesis .
  qed
qed

section \<open>Frequency round trip\<close>

text \<open>
  Claim C1. For every frequency in the range a model can represent, \<^verbatim>\<open>hz_to_freq\<close>
  followed by \<^verbatim>\<open>freq_to_hz\<close> gives the frequency back. FT-60R: the multiples of
  2500 Hz from 0 up to, and not including, \<open>10^9\<close>. VX-2: below \<open>10^9\<close> (six digits of
  kHz), the multiples of 1000 Hz other than 0 whose number of kHz does not end in 2 or 7,
  and the values \<open>K * 1000 + 500\<close> where \<open>K\<close> ends in 2 or 7. The three bytes are written
  to and read from the image at any address \<open>bcd\<close>.
\<close>

theorem freq_roundtrip:
  "(0 \<le> hz \<and> hz < 1000000000 \<and> hz mod 2500 = 0
      \<longrightarrow> ft60_freq_to_hz (ft60_hz_to_freq hz bcd m) bcd = hz) \<and>
   (0 < hz \<and> hz < 1000000000 \<and>
      ((hz mod 1000 = 0 \<and> hz div 1000 mod 10 \<noteq> 2 \<and> hz div 1000 mod 10 \<noteq> 7) \<or>
       (hz mod 1000 = 500 \<and> (hz div 1000 mod 10 = 2 \<or> hz div 1000 mod 10 = 7)))
      \<longrightarrow> vx2_freq_to_hz (vx2_hz_to_freq hz bcd m) bcd = hz)"
proof (intro conjI impI)
  assume a: "0 \<le> hz \<and> hz < 1000000000 \<and> hz mod 2500 = 0"
  show "ft60_freq_to_hz (ft60_hz_to_freq hz bcd m) bcd = hz"
    by (rule ft60_freq_roundtrip
          [OF conjunct1 [OF a] conjunct1 [OF conjunct2 [OF a]] conjunct2 [OF conjunct2 [OF a]]])
next
  assume a: "0 < hz \<and> hz < 1000000000 \<and>
      ((hz mod 1000 = 0 \<and> hz div 1000 mod 10 \<noteq> 2 \<and> hz div 1000 mod 10 \<noteq> 7) \<or>
       (hz mod 1000 = 500 \<and> (hz div 1000 mod 10 = 2 \<or> hz div 1000 mod 10 = 7)))"
  show "vx2_freq_to_hz (vx2_hz_to_freq hz bcd m) bcd = hz"
    by (rule vx2_freq_roundtrip
          [OF conjunct1 [OF a] conjunct1 [OF conjunct2 [OF a]] conjunct2 [OF conjunct2 [OF a]]])
qed

theorem freq_roundtrip_witness:
  "(0::int) \<le> 146522500 \<and> (146522500::int) < 1000000000 \<and> (146522500::int) mod 2500 = 0 \<and>
   ft60_freq_to_hz (ft60_hz_to_freq 146522500 0 (\<lambda>_. 0)) 0 = 146522500 \<and>
   (145012500::int) mod 1000 = 500 \<and> (145012500::int) div 1000 mod 10 = 2 \<and>
   vx2_freq_to_hz (vx2_hz_to_freq 145012500 0 (\<lambda>_. 0)) 0 = 145012500 \<and>
   (443875000::int) mod 1000 = 0 \<and> (443875000::int) div 1000 mod 10 = 5 \<and>
   vx2_freq_to_hz (vx2_hz_to_freq 443875000 0 (\<lambda>_. 0)) 0 = 443875000"
  using freq_roundtrip [of 146522500 0 "\<lambda>_. 0"] freq_roundtrip [of 145012500 0 "\<lambda>_. 0"]
        freq_roundtrip [of 443875000 0 "\<lambda>_. 0"]
  by simp


end
